theory Spec2Isabelle
  imports Complex_Main
begin

section \<open>Domain model (user.schema.ts, role.schema.ts, auth.context.ts)\<close>

text \<open>
  A shallow embedding of the identity service: the Effect schemas of the domain
  (\<^verbatim>\<open>BaseUser\<close>, \<^verbatim>\<open>FullUser\<close>, \<^verbatim>\<open>UserWithPassword\<close>, \<^verbatim>\<open>AuthContext\<close>), the row mapper
  \<^verbatim>\<open>UserMapper\<close>, the repository \<^verbatim>\<open>UserRepositoryLive\<close>, the services \<^verbatim>\<open>UserServiceLive\<close>
  and \<^verbatim>\<open>AuthServiceLive\<close>, the token resolver \<^verbatim>\<open>verifyJwt\<close> and the wrapper \<^verbatim>\<open>withAuth\<close>
  with the five HTTP handlers.

  Strings are lists of 8-bit characters. A JavaScript \<^verbatim>\<open>Date\<close> is an integer time stamp.
  A JavaScript \<^verbatim>\<open>number\<close> is \<^verbatim>\<open>NaN\<close>, an infinity or a finite value; finite values are
  kept as rationals, which contain every finite double.
\<close>

type_synonym Date = int

datatype number = NaN | Num rat | PosInfinity | NegInfinity

text \<open>\<^verbatim>\<open>export const RoleName = Schema.Literal('admin', 'user')\<close>\<close>

datatype RoleName = Admin | User

fun roleString :: "RoleName \<Rightarrow> string" where
  "roleString Admin = ''admin''"
| "roleString User = ''user''"

definition decodeRoleName :: "string \<Rightarrow> RoleName option" where
  "decodeRoleName s =
     (if s = ''admin'' then Some Admin else if s = ''user'' then Some User else None)"

record BaseUser =
  u_id :: string
  u_email :: string
  u_name :: string
  u_role :: RoleName
  u_isActive :: bool
  u_createdAt :: Date
  u_updatedAt :: Date

text \<open>\<^verbatim>\<open>class FullUser extends BaseUser.extend('FullUser')(SensitiveUserData.fields)\<close>\<close>

record FullUser = BaseUser +
  u_salary :: "number option"
  u_ssn :: "string option"

text \<open>\<^verbatim>\<open>class UserWithPassword extends FullUser.extend('UserWithPassword')({password})\<close>\<close>

record UserWithPassword = FullUser +
  u_password :: string

text \<open>\<^verbatim>\<open>type UserByRole<R> = R extends 'admin' ? FullUser : BaseUser\<close>, as a tagged union.\<close>

datatype UserView = Base BaseUser | Full FullUser

text \<open>The property names each schema declares, in declaration order.\<close>

definition BaseUser_fields :: "string list" where
  "BaseUser_fields =
     [''id'', ''email'', ''name'', ''role'', ''isActive'', ''createdAt'', ''updatedAt'']"

definition SensitiveUserData_fields :: "string list" where
  "SensitiveUserData_fields = [''salary'', ''ssn'']"

definition FullUser_fields :: "string list" where
  "FullUser_fields = BaseUser_fields @ SensitiveUserData_fields"

fun viewKeys :: "UserView \<Rightarrow> string list" where
  "viewKeys (Base b) = BaseUser_fields"
| "viewKeys (Full f) = FullUser_fields"

fun isFull :: "UserView \<Rightarrow> bool" where
  "isFull (Full f) = True"
| "isFull (Base b) = False"

fun viewBase :: "UserView \<Rightarrow> BaseUser" where
  "viewBase (Base b) = b"
| "viewBase (Full f) = BaseUser.truncate f"

record AuthContext =
  userId :: string
  ctx_role :: RoleName

text \<open>The DTOs for updates: every field is \<^verbatim>\<open>Schema.optional\<close>; \<^verbatim>\<open>None\<close> is \<^verbatim>\<open>undefined\<close>,
  and for the sensitive fields \<^verbatim>\<open>Some None\<close> is \<^verbatim>\<open>null\<close>.\<close>

record UpdateUserProfile =
  upd_name :: "string option"
  upd_email :: "string option"

record UpdateSensitiveData =
  upd_salary :: "number option option"
  upd_ssn :: "string option option"

section \<open>Field rules of the schemas\<close>

definition isDigit :: "char \<Rightarrow> bool" where
  "isDigit c = (48 \<le> (of_char c :: nat) \<and> (of_char c :: nat) \<le> 57)"

definition isHexDigit :: "char \<Rightarrow> bool" where
  "isHexDigit c =
     (isDigit c \<or> (97 \<le> (of_char c :: nat) \<and> (of_char c :: nat) \<le> 102)
               \<or> (65 \<le> (of_char c :: nat) \<and> (of_char c :: nat) \<le> 70))"

text \<open>The class \<^verbatim>\<open>\s\<close> of a JavaScript regular expression, on 8-bit characters:
  TAB, LF, VT, FF, CR, space and the no-break space.\<close>

definition isWhiteSpace :: "char \<Rightarrow> bool" where
  "isWhiteSpace c = ((of_char c :: nat) \<in> {9, 10, 11, 12, 13, 32, 160})"

text \<open>A string matches a shape when it has the shape's length, a dash wherever the shape
  has one and a character of the class everywhere else.\<close>

fun matchShape :: "(char \<Rightarrow> bool) \<Rightarrow> string \<Rightarrow> string \<Rightarrow> bool" where
  "matchShape cls [] [] = True"
| "matchShape cls (p # ps) (c # cs) =
     ((if p = CHR ''-'' then c = CHR ''-'' else cls c) \<and> matchShape cls ps cs)"
| "matchShape cls [] (c # cs) = False"
| "matchShape cls (p # ps) [] = False"

text \<open>\<^verbatim>\<open>Schema.UUID\<close>:
  \<^verbatim>\<open>/^[0-9a-f]{8}-[0-9a-f]{4}-[0-9a-f]{4}-[0-9a-f]{4}-[0-9a-f]{12}$/i\<close>\<close>

definition isUUID :: "string \<Rightarrow> bool" where
  "isUUID s = matchShape isHexDigit ''xxxxxxxx-xxxx-xxxx-xxxx-xxxxxxxxxxxx'' s"

text \<open>\<^verbatim>\<open>Schema.pattern(/^\d{3}-\d{2}-\d{4}$/)\<close>\<close>

definition ssnPattern :: "string \<Rightarrow> bool" where
  "ssnPattern s = matchShape isDigit ''ddd-dd-dddd'' s"

text \<open>\<^verbatim>\<open>Schema.pattern(/^[^\s@]+@[^\s@]+\.[^\s@]+$/)\<close>: a non-empty run of characters of
  the class \<^verbatim>\<open>[^\s@]\<close>, an at sign, and a rest made of characters of the class only that
  has a dot which is neither its first nor its last character.\<close>

definition emailChar :: "char \<Rightarrow> bool" where
  "emailChar c = (\<not> isWhiteSpace c \<and> c \<noteq> CHR ''@'')"

definition emailPattern :: "string \<Rightarrow> bool" where
  "emailPattern s =
     (takeWhile emailChar s \<noteq> [] \<and>
      (case dropWhile emailChar s of
         [] \<Rightarrow> False
       | c # rest \<Rightarrow> c = CHR ''@'' \<and> list_all emailChar rest \<and> CHR ''.'' \<in> set (butlast (tl rest))))"

text \<open>\<^verbatim>\<open>Schema.minLength(1), Schema.maxLength(255)\<close>\<close>

definition nameRule :: "string \<Rightarrow> bool" where
  "nameRule s = (1 \<le> length s \<and> length s \<le> 255)"

text \<open>\<^verbatim>\<open>Schema.Number.pipe(Schema.greaterThanOrEqualTo(0))\<close>: the test \<^verbatim>\<open>n >= 0\<close>, false at
  \<^verbatim>\<open>NaN\<close>.\<close>

fun greaterThanOrEqualTo0 :: "number \<Rightarrow> bool" where
  "greaterThanOrEqualTo0 NaN = False"
| "greaterThanOrEqualTo0 (Num r) = (0 \<le> r)"
| "greaterThanOrEqualTo0 PosInfinity = True"
| "greaterThanOrEqualTo0 NegInfinity = False"

definition salaryRule :: "number option \<Rightarrow> bool" where
  "salaryRule v = (case v of None \<Rightarrow> True | Some n \<Rightarrow> greaterThanOrEqualTo0 n)"

definition ssnRule :: "string option \<Rightarrow> bool" where
  "ssnRule v = (case v of None \<Rightarrow> True | Some s \<Rightarrow> ssnPattern s)"

text \<open>\<^verbatim>\<open>Schema.String.pipe(Schema.minLength(8))\<close>\<close>

definition passwordRule :: "string \<Rightarrow> bool" where
  "passwordRule s = (8 \<le> length s)"

section \<open>Decoding (\<^verbatim>\<open>Schema.decodeUnknown\<close>)\<close>

text \<open>The object literal handed to \<^verbatim>\<open>Schema.decodeUnknown\<close>. The fields \<^verbatim>\<open>isActive\<close>,
  \<^verbatim>\<open>createdAt\<close> and \<^verbatim>\<open>updatedAt\<close> come typed from the row, so \<^verbatim>\<open>Schema.Boolean\<close> and
  \<^verbatim>\<open>Schema.DateFromSelf\<close> accept them. \<^verbatim>\<open>None\<close> is a decode failure.\<close>

record RawUser =
  raw_id :: string
  raw_email :: string
  raw_name :: string
  raw_role :: string
  raw_isActive :: bool
  raw_createdAt :: Date
  raw_updatedAt :: Date

record RawFull = RawUser +
  raw_salary :: "number option"
  raw_ssn :: "string option"

record RawCred = RawFull +
  raw_password :: string

definition decodeBaseUser :: "'a RawUser_scheme \<Rightarrow> BaseUser option" where
  "decodeBaseUser raw =
     (if isUUID (raw_id raw) \<and> emailPattern (raw_email raw) \<and> nameRule (raw_name raw) then
        (case decodeRoleName (raw_role raw) of
           None \<Rightarrow> None
         | Some r \<Rightarrow> Some \<lparr>u_id = raw_id raw, u_email = raw_email raw, u_name = raw_name raw,
                          u_role = r, u_isActive = raw_isActive raw,
                          u_createdAt = raw_createdAt raw, u_updatedAt = raw_updatedAt raw\<rparr>)
      else None)"

definition decodeFullUser :: "'a RawFull_scheme \<Rightarrow> FullUser option" where
  "decodeFullUser raw =
     (case decodeBaseUser raw of
        None \<Rightarrow> None
      | Some b \<Rightarrow>
          if salaryRule (raw_salary raw) \<and> ssnRule (raw_ssn raw)
          then Some \<lparr>u_id = u_id b, u_email = u_email b, u_name = u_name b,
                     u_role = u_role b, u_isActive = u_isActive b,
                     u_createdAt = u_createdAt b, u_updatedAt = u_updatedAt b,
                     u_salary = raw_salary raw, u_ssn = raw_ssn raw\<rparr>
          else None)"

definition decodeUserWithPassword :: "'a RawCred_scheme \<Rightarrow> UserWithPassword option" where
  "decodeUserWithPassword raw =
     (case decodeFullUser raw of
        None \<Rightarrow> None
      | Some f \<Rightarrow>
          if passwordRule (raw_password raw)
          then Some \<lparr>u_id = u_id f, u_email = u_email f, u_name = u_name f,
                     u_role = u_role f, u_isActive = u_isActive f,
                     u_createdAt = u_createdAt f, u_updatedAt = u_updatedAt f,
                     u_salary = u_salary f, u_ssn = u_ssn f,
                     u_password = raw_password raw\<rparr>
          else None)"

text \<open>\<^verbatim>\<open>Schema.decodeUnknown(AuthContext)({userId, role})\<close>\<close>

definition decodeAuthContext :: "string \<Rightarrow> string \<Rightarrow> AuthContext option" where
  "decodeAuthContext uid r =
     (if isUUID uid then
        (case decodeRoleName r of
           None \<Rightarrow> None
         | Some rl \<Rightarrow> Some \<lparr>userId = uid, ctx_role = rl\<rparr>)
      else None)"

section \<open>Errors (application.errors.ts, AppErrors.ts, auth.errors.ts)\<close>

text \<open>The \<^verbatim>\<open>cause\<close> of a \<^verbatim>\<open>DatabaseError\<close> is opaque: only its origin is kept.
  \<^verbatim>\<open>Unauthorized\<close> is the plain object \<^verbatim>\<open>{_tag: 'Unauthorized', message}\<close> that
  \<^verbatim>\<open>withAuth\<close> fails with; \<^verbatim>\<open>Defect\<close> is a failure turned into a defect by
  \<^verbatim>\<open>Effect.orDie\<close>.\<close>

datatype Cause = ParseError | DriverError

datatype AppError =
    AuthenticationError string
  | Unauthorized string
  | ForbiddenError string
  | NotFoundError string string
  | DatabaseError string "Cause option"
  | Defect

section \<open>Host primitives and configuration\<close>

record JWTPayload =
  jwt_userId :: string
  jwt_email :: string
  jwt_role :: string

text \<open>What the code calls and does not define: JavaScript's \<^verbatim>\<open>parseFloat\<close> and
  \<^verbatim>\<open>Number.prototype.toString\<close>, \<^verbatim>\<open>jwt.verify(token, secret)\<close> and
  \<^verbatim>\<open>jwt.sign(payload, secret, {expiresIn})\<close> (\<^verbatim>\<open>None\<close> when they throw), and
  \<^verbatim>\<open>bcrypt.compare(plain, hash)\<close>. Every function below takes them as a parameter.\<close>

record Host =
  parseFloat :: "string \<Rightarrow> number"
  numberToString :: "number \<Rightarrow> string"
  jwt_verify :: "string \<Rightarrow> string \<Rightarrow> JWTPayload option"
  jwt_sign :: "JWTPayload \<Rightarrow> string \<Rightarrow> string \<Rightarrow> string option"
  bcrypt_compare :: "string \<Rightarrow> string \<Rightarrow> bool"

text \<open>The environment read through \<^verbatim>\<open>Config.string(...).pipe(Config.withDefault(...))\<close>.\<close>

record Env =
  JWT_SECRET :: "string option"
  JWT_EXPIRES_IN :: "string option"

definition jwtSecret :: "Env \<Rightarrow> string" where
  "jwtSecret env = (case JWT_SECRET env of None \<Rightarrow> ''your-secret-key'' | Some s \<Rightarrow> s)"

definition expiresIn :: "Env \<Rightarrow> string" where
  "expiresIn env = (case JWT_EXPIRES_IN env of None \<Rightarrow> ''24h'' | Some s \<Rightarrow> s)"

section \<open>Storage rows and the row mapper (user.table.ts, user.mappers.ts)\<close>

text \<open>\<^verbatim>\<open>UserRow = typeof usersTable.$inferSelect\<close>: \<^verbatim>\<open>role\<close> is a \<^verbatim>\<open>varchar\<close>,
  \<^verbatim>\<open>salary\<close> a nullable \<^verbatim>\<open>numeric\<close> that the driver delivers as a string.\<close>

record UserRow =
  row_id :: string
  row_name :: string
  row_email :: string
  row_role :: string
  row_isActive :: bool
  row_password :: string
  row_salary :: "string option"
  row_ssn :: "string option"
  row_createdAt :: Date
  row_updatedAt :: Date

definition rawUser :: "UserRow \<Rightarrow> RawUser" where
  "rawUser row =
     \<lparr>raw_id = row_id row, raw_email = row_email row, raw_name = row_name row,
      raw_role = row_role row, raw_isActive = row_isActive row,
      raw_createdAt = row_createdAt row, raw_updatedAt = row_updatedAt row\<rparr>"

text \<open>\<^verbatim>\<open>row.salary ? parseFloat(row.salary) : null\<close>: \<^verbatim>\<open>null\<close> and the empty string are
  falsy.\<close>

definition salaryOfRow :: "Host \<Rightarrow> UserRow \<Rightarrow> number option" where
  "salaryOfRow H row =
     (case row_salary row of
        None \<Rightarrow> None
      | Some s \<Rightarrow> if s = [] then None else Some (parseFloat H s))"

definition rawFull :: "Host \<Rightarrow> UserRow \<Rightarrow> RawFull" where
  "rawFull H row =
     \<lparr>raw_id = row_id row, raw_email = row_email row, raw_name = row_name row,
      raw_role = row_role row, raw_isActive = row_isActive row,
      raw_createdAt = row_createdAt row, raw_updatedAt = row_updatedAt row,
      raw_salary = salaryOfRow H row, raw_ssn = row_ssn row\<rparr>"

definition rawCred :: "Host \<Rightarrow> UserRow \<Rightarrow> RawCred" where
  "rawCred H row =
     \<lparr>raw_id = row_id row, raw_email = row_email row, raw_name = row_name row,
      raw_role = row_role row, raw_isActive = row_isActive row,
      raw_createdAt = row_createdAt row, raw_updatedAt = row_updatedAt row,
      raw_salary = salaryOfRow H row, raw_ssn = row_ssn row,
      raw_password = row_password row\<rparr>"

definition toBaseUser :: "UserRow \<Rightarrow> AppError + BaseUser" where
  "toBaseUser row =
     (case decodeBaseUser (rawUser row) of
        None \<Rightarrow> Inl (DatabaseError ''Failed to map database row to BaseUser domain model''
                      (Some ParseError))
      | Some b \<Rightarrow> Inr b)"

definition toFullUser :: "Host \<Rightarrow> UserRow \<Rightarrow> AppError + FullUser" where
  "toFullUser H row =
     (case decodeFullUser (rawFull H row) of
        None \<Rightarrow> Inl (DatabaseError ''Failed to map database row to FullUser domain model''
                      (Some ParseError))
      | Some f \<Rightarrow> Inr f)"

definition toUserWithPassword :: "Host \<Rightarrow> UserRow \<Rightarrow> AppError + UserWithPassword" where
  "toUserWithPassword H row =
     (case decodeUserWithPassword (rawCred H row) of
        None \<Rightarrow> Inl (DatabaseError
                      ''Failed to map database row to UserWithPassword domain model''
                      (Some ParseError))
      | Some u \<Rightarrow> Inr u)"

definition toUserByRole :: "Host \<Rightarrow> UserRow \<Rightarrow> RoleName \<Rightarrow> AppError + UserView" where
  "toUserByRole H row requestingRole =
     (if requestingRole = Admin
      then (case toFullUser H row of Inl e \<Rightarrow> Inl e | Inr f \<Rightarrow> Inr (Full f))
      else (case toBaseUser row of Inl e \<Rightarrow> Inl e | Inr b \<Rightarrow> Inr (Base b)))"

text \<open>\<^verbatim>\<open>Effect.all\<close> over an array, sequential: the effects run in order and the first
  failure is the failure of the whole.\<close>

fun effectAll :: "('e + 'a) list \<Rightarrow> 'e + 'a list" where
  "effectAll [] = Inr []"
| "effectAll (x # xs) =
     (case x of
        Inl e \<Rightarrow> Inl e
      | Inr a \<Rightarrow> (case effectAll xs of Inl e \<Rightarrow> Inl e | Inr as \<Rightarrow> Inr (a # as)))"

definition toUsersByRole :: "Host \<Rightarrow> UserRow list \<Rightarrow> RoleName \<Rightarrow> AppError + UserView list" where
  "toUsersByRole H rows requestingRole =
     effectAll (map (\<lambda>row. toUserByRole H row requestingRole) rows)"

text \<open>A row is well formed when the object the mapper builds from it meets every field
  rule of \<^verbatim>\<open>FullUser\<close>.\<close>

definition wellFormedRow :: "Host \<Rightarrow> UserRow \<Rightarrow> bool" where
  "wellFormedRow H row =
     (isUUID (row_id row) \<and> emailPattern (row_email row) \<and> nameRule (row_name row) \<and>
      decodeRoleName (row_role row) \<noteq> None \<and>
      salaryRule (salaryOfRow H row) \<and> ssnRule (row_ssn row))"

section \<open>Storage\<close>

text \<open>\<^verbatim>\<open>Partial<typeof usersTable.$inferInsert>\<close> as the repository fills it: a key is
  present when its field is \<^verbatim>\<open>Some\<close>.\<close>

record Updates =
  set_name :: "string option"
  set_email :: "string option"
  set_salary :: "string option option"
  set_ssn :: "string option option"
  set_updatedAt :: "Date option"

definition noUpdates :: Updates where
  "noUpdates = \<lparr>set_name = None, set_email = None, set_salary = None, set_ssn = None,
                 set_updatedAt = None\<rparr>"

text \<open>\<^verbatim>\<open>Object.keys(updates).length\<close>\<close>

definition keyCount :: "Updates \<Rightarrow> nat" where
  "keyCount u =
     (if set_name u = None then 0 else 1) + (if set_email u = None then 0 else 1) +
     (if set_salary u = None then 0 else 1) + (if set_ssn u = None then 0 else 1) +
     (if set_updatedAt u = None then 0 else 1)"

text \<open>The statements the repository sends to the database.\<close>

datatype Stmt =
    SelectById string
  | SelectActive
  | SelectByEmail string
  | UpdateById string Updates

text \<open>The database as the repository sees it: the \<^verbatim>\<open>users\<close> table, whether a statement's
  promise resolves (\<^verbatim>\<open>reachable\<close>) or rejects, the clock read by \<^verbatim>\<open>new Date()\<close>, the length
  of the array an UPDATE resolves to as a function of the number of rows it matched
  (the driver decides it; the repository only tests \<^verbatim>\<open>result.length > 0\<close>), and the
  journal of the statements sent so far.

  The column \<^verbatim>\<open>id\<close> is a \<^verbatim>\<open>uuid\<close> (\<^verbatim>\<open>uuid('id').primaryKey()\<close>): a row holds its id as the
  text the database prints for it, and \<^verbatim>\<open>eq(usersTable.id, userId)\<close> compares the column with
  the uuid that the string \<^verbatim>\<open>userId\<close> denotes. \<^verbatim>\<open>uuidInput\<close> is the database's reading of a
  string as a uuid: the printed text of the uuid it denotes, or \<^verbatim>\<open>None\<close> when the database
  rejects the string, and with it the statement.\<close>

record Db =
  table :: "UserRow list"
  reachable :: bool
  clock :: Date
  resultLength :: "nat \<Rightarrow> nat"
  uuidInput :: "string \<Rightarrow> string option"
  journal :: "Stmt list"

definition dbSelect :: "Stmt \<Rightarrow> (UserRow \<Rightarrow> bool) \<Rightarrow> Db \<Rightarrow> UserRow list option \<times> Db" where
  "dbSelect st p db =
     (if reachable db then Some (filter p (table db)) else None,
      db\<lparr>journal := journal db @ [st]\<rparr>)"

definition applyUpdates :: "Updates \<Rightarrow> UserRow \<Rightarrow> UserRow" where
  "applyUpdates u r =
     r\<lparr>row_name := (case set_name u of None \<Rightarrow> row_name r | Some v \<Rightarrow> v),
       row_email := (case set_email u of None \<Rightarrow> row_email r | Some v \<Rightarrow> v),
       row_salary := (case set_salary u of None \<Rightarrow> row_salary r | Some v \<Rightarrow> v),
       row_ssn := (case set_ssn u of None \<Rightarrow> row_ssn r | Some v \<Rightarrow> v),
       row_updatedAt := (case set_updatedAt u of None \<Rightarrow> row_updatedAt r | Some v \<Rightarrow> v)\<rparr>"

text \<open>\<^verbatim>\<open>.where(eq(usersTable.id, userId))\<close>: the uuid the statement compares the column with,
  when the database takes the statement.\<close>

definition whereId :: "Db \<Rightarrow> string \<Rightarrow> string option" where
  "whereId db uid = (if reachable db then uuidInput db uid else None)"

definition dbSelectById :: "string \<Rightarrow> Db \<Rightarrow> UserRow list option \<times> Db" where
  "dbSelectById uid db =
     (case whereId db uid of
        None \<Rightarrow> None
      | Some c \<Rightarrow> Some (filter (\<lambda>r. row_id r = c) (table db)),
      db\<lparr>journal := journal db @ [SelectById uid]\<rparr>)"

definition dbUpdate :: "string \<Rightarrow> Updates \<Rightarrow> Db \<Rightarrow> nat option \<times> Db" where
  "dbUpdate uid u db =
     (case whereId db uid of
        None \<Rightarrow> (None, db\<lparr>journal := journal db @ [UpdateById uid u]\<rparr>)
      | Some c \<Rightarrow>
          (Some (resultLength db (length (filter (\<lambda>r. row_id r = c) (table db)))),
           db\<lparr>table := map (\<lambda>r. if row_id r = c then applyUpdates u r else r) (table db),
              journal := journal db @ [UpdateById uid u]\<rparr>))"

section \<open>Repository (user.repository.ts)\<close>

definition findById ::
  "Host \<Rightarrow> string \<Rightarrow> RoleName \<Rightarrow> Db \<Rightarrow> (AppError + UserView option) \<times> Db" where
  "findById H uid requestingRole db =
     (case dbSelectById uid db of
        (None, db') \<Rightarrow>
          (Inl (DatabaseError ''Failed to fetch user from database'' (Some DriverError)), db')
      | (Some rows, db') \<Rightarrow>
          (case rows of
             [] \<Rightarrow> (Inr None, db')
           | row # _ \<Rightarrow>
               (case toUserByRole H row requestingRole of
                  Inl e \<Rightarrow> (Inl e, db')
                | Inr user \<Rightarrow> (Inr (Some user), db'))))"

definition findAll :: "Host \<Rightarrow> RoleName \<Rightarrow> Db \<Rightarrow> (AppError + UserView list) \<times> Db" where
  "findAll H requestingRole db =
     (case dbSelect SelectActive (\<lambda>r. row_isActive r) db of
        (None, db') \<Rightarrow>
          (Inl (DatabaseError ''Failed to fetch users from database'' (Some DriverError)), db')
      | (Some rows, db') \<Rightarrow> (toUsersByRole H rows requestingRole, db'))"

definition findByEmail ::
  "Host \<Rightarrow> string \<Rightarrow> Db \<Rightarrow> (AppError + UserWithPassword option) \<times> Db" where
  "findByEmail H email db =
     (case dbSelect (SelectByEmail email) (\<lambda>r. row_email r = email) db of
        (None, db') \<Rightarrow>
          (Inl (DatabaseError ''Failed to fetch user by email from database''
                  (Some DriverError)), db')
      | (Some rows, db') \<Rightarrow>
          (case rows of
             [] \<Rightarrow> (Inr None, db')
           | row # _ \<Rightarrow>
               (case toUserWithPassword H row of
                  Inl e \<Rightarrow> (Inl e, db')
                | Inr user \<Rightarrow> (Inr (Some user), db'))))"

text \<open>\<^verbatim>\<open>if (data.name) updates.name = data.name\<close>: \<^verbatim>\<open>undefined\<close> and the empty string are
  falsy.\<close>

definition truthy :: "string option \<Rightarrow> string option" where
  "truthy v = (case v of None \<Rightarrow> None | Some s \<Rightarrow> if s = [] then None else Some s)"

definition profileUpdates :: "UpdateUserProfile \<Rightarrow> Updates" where
  "profileUpdates data = noUpdates\<lparr>set_name := truthy (upd_name data),
                                   set_email := truthy (upd_email data)\<rparr>"

definition update :: "string \<Rightarrow> UpdateUserProfile \<Rightarrow> Db \<Rightarrow> (AppError + bool) \<times> Db" where
  "update uid data db =
     (let updates = profileUpdates data in
      if keyCount updates = 0 then (Inr False, db)
      else
        (case dbUpdate uid (updates\<lparr>set_updatedAt := Some (clock db)\<rparr>) db of
           (None, db') \<Rightarrow>
             (Inl (DatabaseError ''Failed to update user in database'' (Some DriverError)), db')
         | (Some n, db') \<Rightarrow> (Inr (n > 0), db')))"

text \<open>\<^verbatim>\<open>data.salary !== null ? data.salary.toString() : null\<close>\<close>

definition sensitiveUpdates :: "Host \<Rightarrow> UpdateSensitiveData \<Rightarrow> Updates" where
  "sensitiveUpdates H data =
     noUpdates\<lparr>set_salary := (case upd_salary data of
                                None \<Rightarrow> None
                              | Some None \<Rightarrow> Some None
                              | Some (Some n) \<Rightarrow> Some (Some (numberToString H n))),
               set_ssn := upd_ssn data\<rparr>"

definition updateSensitive ::
  "Host \<Rightarrow> string \<Rightarrow> UpdateSensitiveData \<Rightarrow> Db \<Rightarrow> (AppError + bool) \<times> Db" where
  "updateSensitive H uid data db =
     (let updates = sensitiveUpdates H data in
      if keyCount updates = 0 then (Inr False, db)
      else
        (case dbUpdate uid (updates\<lparr>set_updatedAt := Some (clock db)\<rparr>) db of
           (None, db') \<Rightarrow>
             (Inl (DatabaseError ''Failed to update sensitive data in database''
                     (Some DriverError)), db')
         | (Some n, db') \<Rightarrow> (Inr (n > 0), db')))"

section \<open>User service (user.service.ts)\<close>

definition getUser ::
  "Host \<Rightarrow> string \<Rightarrow> RoleName \<Rightarrow> string \<Rightarrow> Db \<Rightarrow> (AppError + UserView) \<times> Db" where
  "getUser H uid requestingRole requestingUserId db =
     (if requestingRole = User \<and> requestingUserId \<noteq> uid
      then (Inl (ForbiddenError ''Users can only view their own profile''), db)
      else
        (case findById H uid requestingRole db of
           (Inl e, db') \<Rightarrow> (Inl e, db')
         | (Inr None, db') \<Rightarrow> (Inl (NotFoundError ''User'' uid), db')
         | (Inr (Some user), db') \<Rightarrow> (Inr user, db')))"

definition getAllUsers ::
  "Host \<Rightarrow> RoleName \<Rightarrow> string \<Rightarrow> Db \<Rightarrow> (AppError + UserView list) \<times> Db" where
  "getAllUsers H requestingRole requestingUserId db = findAll H requestingRole db"

definition updateProfile ::
  "string \<Rightarrow> UpdateUserProfile \<Rightarrow> RoleName \<Rightarrow> string \<Rightarrow> Db \<Rightarrow> (AppError + bool) \<times> Db" where
  "updateProfile uid data requestingRole requestingUserId db =
     (if requestingRole = User \<and> requestingUserId \<noteq> uid
      then (Inl (ForbiddenError ''Cannot update other users''), db)
      else update uid data db)"

definition updateSensitiveData ::
  "Host \<Rightarrow> string \<Rightarrow> UpdateSensitiveData \<Rightarrow> RoleName \<Rightarrow> string \<Rightarrow> Db
     \<Rightarrow> (AppError + bool) \<times> Db" where
  "updateSensitiveData H uid data requestingRole requestingUserId db =
     (if requestingRole \<noteq> Admin
      then (Inl (ForbiddenError ''Admin access required''), db)
      else updateSensitive H uid data db)"

section \<open>Credential service (auth.service.ts)\<close>

definition generateToken :: "Host \<Rightarrow> Env \<Rightarrow> string \<Rightarrow> string \<Rightarrow> string \<Rightarrow> AppError + string" where
  "generateToken H env uid email rl =
     (case jwt_sign H \<lparr>jwt_userId = uid, jwt_email = email, jwt_role = rl\<rparr>
             (jwtSecret env) (expiresIn env) of
        None \<Rightarrow> Inl (AuthenticationError ''Failed to generate token'')
      | Some token \<Rightarrow> Inr token)"

definition verifyPassword :: "Host \<Rightarrow> string \<Rightarrow> string \<Rightarrow> bool" where
  "verifyPassword H plainPassword hashedPassword =
     bcrypt_compare H plainPassword hashedPassword"

definition login :: "Host \<Rightarrow> Env \<Rightarrow> string \<Rightarrow> string \<Rightarrow> Db \<Rightarrow> (AppError + string) \<times> Db" where
  "login H env email pw db =
     (case findByEmail H email db of
        (Inl e, db') \<Rightarrow> (Inl e, db')
      | (Inr None, db') \<Rightarrow> (Inl (AuthenticationError ''Invalid email or password''), db')
      | (Inr (Some user), db') \<Rightarrow>
          if \<not> u_isActive user
          then (Inl (AuthenticationError ''User account is inactive''), db')
          else if \<not> verifyPassword H pw (u_password user)
          then (Inl (AuthenticationError ''Invalid email or password''), db')
          else (generateToken H env (u_id user) (u_email user) (roleString (u_role user)),
                db'))"

section \<open>Authorization context (auth.middleware.ts)\<close>

definition verifyJwt :: "Host \<Rightarrow> Env \<Rightarrow> string \<Rightarrow> Db \<Rightarrow> (AppError + AuthContext) \<times> Db" where
  "verifyJwt H env token db =
     (if token = [] then (Inl (AuthenticationError ''Missing authorization token''), db)
      else
        (case jwt_verify H token (jwtSecret env) of
           None \<Rightarrow> (Inl (AuthenticationError ''Invalid or expired token''), db)
         | Some payload \<Rightarrow>
             (case findByEmail H (jwt_email payload) db of
                (Inl e, db') \<Rightarrow> (Inl e, db')
              | (Inr None, db') \<Rightarrow> (Inl (AuthenticationError ''User not found''), db')
              | (Inr (Some user), db') \<Rightarrow>
                  if \<not> u_isActive user
                  then (Inl (AuthenticationError ''User account is inactive''), db')
                  else
                    (case decodeAuthContext (u_id user) (roleString (u_role user)) of
                       None \<Rightarrow> (Inl (AuthenticationError ''Invalid auth context''), db')
                     | Some authContext \<Rightarrow> (Inr authContext, db')))))"

text \<open>\<^verbatim>\<open>String.prototype.replace\<close> with a string pattern: the first occurrence only.\<close>

fun replaceFirst :: "string \<Rightarrow> string \<Rightarrow> string \<Rightarrow> string" where
  "replaceFirst pat rep [] = (if pat = [] then rep else [])"
| "replaceFirst pat rep (c # cs) =
     (if take (length pat) (c # cs) = pat then rep @ drop (length pat) (c # cs)
      else c # replaceFirst pat rep cs)"

text \<open>A request, as far as the middleware reads it: \<^verbatim>\<open>request.headers.authorization\<close>.\<close>

record Request =
  authorization :: "string option"

text \<open>\<^verbatim>\<open>request.headers.authorization?.replace('Bearer ', '') || ''\<close>\<close>

definition bearerToken :: "Request \<Rightarrow> string" where
  "bearerToken request =
     (case authorization request of
        None \<Rightarrow> []
      | Some h \<Rightarrow> replaceFirst ''Bearer '' [] h)"

definition authMiddleware ::
  "Host \<Rightarrow> Env \<Rightarrow> Request \<Rightarrow> (AuthContext \<Rightarrow> Db \<Rightarrow> (AppError + 'a) \<times> Db) \<Rightarrow> Db
     \<Rightarrow> (AppError + 'a) \<times> Db" where
  "authMiddleware H env request app db =
     (case verifyJwt H env (bearerToken request) db of
        (Inl e, db') \<Rightarrow> (Inl e, db')
      | (Inr authContext, db') \<Rightarrow> app authContext db')"

definition withAuth ::
  "Request \<Rightarrow> (AuthContext \<Rightarrow> Db \<Rightarrow> (AppError + 'a) \<times> Db) \<Rightarrow> Db \<Rightarrow> (AppError + 'a) \<times> Db" where
  "withAuth request effect db =
     (let token = bearerToken request in
      if token = [] then (Inl (Unauthorized ''No token''), db)
      else
        (case decodeAuthContext ''550e8400-e29b-41d4-a716-446655440000'' ''admin'' of
           None \<Rightarrow> (Inl Defect, db)
         | Some authContext \<Rightarrow> effect authContext db))"

text \<open>The context \<^verbatim>\<open>withAuth\<close> decodes: the object literal
  \<^verbatim>\<open>{userId: '550e8400-e29b-41d4-a716-446655440000', role: 'admin'}\<close>.\<close>

definition hardcodedContext :: AuthContext where
  "hardcodedContext = \<lparr>userId = ''550e8400-e29b-41d4-a716-446655440000'', ctx_role = Admin\<rparr>"

section \<open>HTTP handlers (user.handlers.ts)\<close>

definition handle_getCurrentUser :: "Host \<Rightarrow> Request \<Rightarrow> Db \<Rightarrow> (AppError + UserView) \<times> Db" where
  "handle_getCurrentUser H request =
     withAuth request
       (\<lambda>authContext. getUser H (userId authContext) (ctx_role authContext) (userId authContext))"

definition handle_getAllUsers :: "Host \<Rightarrow> Request \<Rightarrow> Db \<Rightarrow> (AppError + UserView list) \<times> Db" where
  "handle_getAllUsers H request =
     withAuth request
       (\<lambda>authContext. getAllUsers H (ctx_role authContext) (userId authContext))"

definition handle_getUser ::
  "Host \<Rightarrow> Request \<Rightarrow> string \<Rightarrow> Db \<Rightarrow> (AppError + UserView) \<times> Db" where
  "handle_getUser H request path_id =
     withAuth request
       (\<lambda>authContext. getUser H path_id (ctx_role authContext) (userId authContext))"

definition handle_updateUser ::
  "Request \<Rightarrow> string \<Rightarrow> UpdateUserProfile \<Rightarrow> Db \<Rightarrow> (AppError + bool) \<times> Db" where
  "handle_updateUser request path_id payload =
     withAuth request
       (\<lambda>authContext. updateProfile path_id payload (ctx_role authContext) (userId authContext))"

definition handle_updateSensitiveData ::
  "Host \<Rightarrow> Request \<Rightarrow> string \<Rightarrow> UpdateSensitiveData \<Rightarrow> Db \<Rightarrow> (AppError + bool) \<times> Db" where
  "handle_updateSensitiveData H request path_id payload =
     withAuth request
       (\<lambda>authContext. updateSensitiveData H path_id payload (ctx_role authContext)
                         (userId authContext))"

section \<open>Concrete inputs for the examples\<close>

text \<open>Stand-ins for the host primitives, used only to run the definitions on the concrete
  inputs of the examples; every general theorem below holds for every host. The parser
  reads, after leading white space, the longest prefix that is a decimal literal (sign,
  \<^verbatim>\<open>Infinity\<close> or digits with an optional fraction and exponent), with its exact value; the
  renderer writes the integer part of a number. A token is \<^verbatim>\<open>tok:\<close> followed by the email,
  and a hash is \<^verbatim>\<open>$2b$\<close> followed by the password.\<close>

definition digitsValue :: "string \<Rightarrow> nat" where
  "digitsValue ds = foldl (\<lambda>a c. 10 * a + (of_char c - 48)) 0 ds"

definition exponentOf :: "string \<Rightarrow> int" where
  "exponentOf r =
     (case r of
        [] \<Rightarrow> 0
      | e # r1 \<Rightarrow>
          if e = CHR ''e'' \<or> e = CHR ''E'' then
            (let neg = (r1 \<noteq> [] \<and> hd r1 = CHR ''-'');
                 r2 = (if r1 \<noteq> [] \<and> (hd r1 = CHR ''-'' \<or> hd r1 = CHR ''+'') then tl r1 else r1);
                 ds = takeWhile isDigit r2
             in if neg then - int (digitsValue ds) else int (digitsValue ds))
          else 0)"

definition testParseFloat :: "string \<Rightarrow> number" where
  "testParseFloat s =
     (let t = dropWhile isWhiteSpace s;
          neg = (t \<noteq> [] \<and> hd t = CHR ''-'');
          t1 = (if t \<noteq> [] \<and> (hd t = CHR ''-'' \<or> hd t = CHR ''+'') then tl t else t)
      in if take 8 t1 = ''Infinity'' then (if neg then NegInfinity else PosInfinity)
         else
           (let ip = takeWhile isDigit t1;
                r1 = dropWhile isDigit t1;
                hasDot = (r1 \<noteq> [] \<and> hd r1 = CHR ''.'');
                fp = (if hasDot then takeWhile isDigit (tl r1) else []);
                r2 = (if hasDot then dropWhile isDigit (tl r1) else r1);
                ex = exponentOf r2;
                m = of_nat (digitsValue ip) + of_nat (digitsValue fp) / 10 ^ length fp;
                v = (if 0 \<le> ex then m * 10 ^ nat ex else m / 10 ^ nat (- ex))
            in if ip = [] \<and> fp = [] then NaN else Num (if neg then - v else v)))"

function showNat :: "nat \<Rightarrow> string" where
  "showNat n = (if n < 10 then [char_of (48 + n)] else showNat (n div 10) @ [char_of (48 + n mod 10)])"
  by pat_completeness auto
termination
  by (relation "measure id") auto

definition testNumberToString :: "number \<Rightarrow> string" where
  "testNumberToString n =
     (case n of
        NaN \<Rightarrow> ''NaN''
      | PosInfinity \<Rightarrow> ''Infinity''
      | NegInfinity \<Rightarrow> ''-Infinity''
      | Num r \<Rightarrow> (if r < 0 then ''-'' else []) @ showNat (nat \<lfloor>\<bar>r\<bar>\<rfloor>))"

definition testHost :: Host where
  "testHost =
     \<lparr>parseFloat = testParseFloat,
      numberToString = testNumberToString,
      jwt_verify = (\<lambda>token secret.
         if take 4 token = ''tok:''
         then Some \<lparr>jwt_userId = [], jwt_email = drop 4 token, jwt_role = ''user''\<rparr>
         else None),
      jwt_sign = (\<lambda>payload secret expiry. Some (''tok:'' @ jwt_email payload)),
      bcrypt_compare = (\<lambda>plain hash. hash = ''$2b$'' @ plain)\<rparr>"

definition testEnv :: Env where
  "testEnv = \<lparr>JWT_SECRET = None, JWT_EXPIRES_IN = None\<rparr>"

text \<open>The row of the specification's end-to-end example, with a well-formed identifier,
  and a second, ordinary user.\<close>

definition annRow :: UserRow where
  "annRow =
     \<lparr>row_id = ''550e8400-e29b-41d4-a716-446655440000'', row_name = ''Ann'',
      row_email = ''a@b.com'', row_role = ''admin'', row_isActive = True,
      row_password = ''$2b$secret-pw'', row_salary = Some ''50000.00'',
      row_ssn = Some ''123-45-6789'', row_createdAt = 1000, row_updatedAt = 1000\<rparr>"

definition bobRow :: UserRow where
  "bobRow =
     \<lparr>row_id = ''11111111-2222-3333-4444-555555555555'', row_name = ''Bob'',
      row_email = ''bob@c.org'', row_role = ''user'', row_isActive = True,
      row_password = ''$2b$hunter22'', row_salary = None,
      row_ssn = None, row_createdAt = 2000, row_updatedAt = 2000\<rparr>"

text \<open>A stand-in for the database's reading of a string as a uuid, after PostgreSQL's
  \<^verbatim>\<open>uuid\<close> input: eight groups of four hexadecimal digits in either case, an optional
  hyphen after every group but the last, optionally the whole in braces, and nothing else;
  the printed text is in lower case, grouped 8-4-4-4-12.\<close>

definition lowerHex :: "char \<Rightarrow> char" where
  "lowerHex c =
     (if c = CHR ''A'' then CHR ''a'' else if c = CHR ''B'' then CHR ''b''
      else if c = CHR ''C'' then CHR ''c'' else if c = CHR ''D'' then CHR ''d''
      else if c = CHR ''E'' then CHR ''e'' else if c = CHR ''F'' then CHR ''f'' else c)"

fun uuidGroups :: "nat \<Rightarrow> string \<Rightarrow> (string \<times> string) option" where
  "uuidGroups 0 src = Some ([], src)"
| "uuidGroups (Suc k) src =
     (case src of
        a # b # c # d # rest \<Rightarrow>
          if isHexDigit a \<and> isHexDigit b \<and> isHexDigit c \<and> isHexDigit d then
            (case uuidGroups k
                    (if 0 < k \<and> rest \<noteq> [] \<and> hd rest = CHR ''-'' then tl rest else rest) of
               None \<Rightarrow> None
             | Some (ds, r) \<Rightarrow>
                 Some (lowerHex a # lowerHex b # lowerHex c # lowerHex d # ds, r))
          else None
      | _ \<Rightarrow> None)"

definition printUuid :: "string \<Rightarrow> string" where
  "printUuid ds =
     take 8 ds @ ''-'' @ take 4 (drop 8 ds) @ ''-'' @ take 4 (drop 12 ds) @ ''-'' @
     take 4 (drop 16 ds) @ ''-'' @ drop 20 ds"

definition testUuidInput :: "string \<Rightarrow> string option" where
  "testUuidInput s =
     (let braces = (s \<noteq> [] \<and> hd s = CHR ''{'');
          src = (if braces then tl s else s)
      in case uuidGroups 8 src of
           None \<Rightarrow> None
         | Some (ds, r) \<Rightarrow>
             if r = (if braces then ''}'' else []) then Some (printUuid ds) else None)"

definition testDb :: Db where
  "testDb = \<lparr>table = [annRow, bobRow], reachable = True, clock = 5000,
             resultLength = (\<lambda>n. n), uuidInput = testUuidInput, journal = []\<rparr>"

text \<open>A row whose stored email does not match the pattern.\<close>

definition malformedRow :: UserRow where
  "malformedRow = bobRow\<lparr>row_email := ''not-an-email''\<rparr>"

text \<open>The views these rows map to.\<close>

definition annFull :: FullUser where
  "annFull =
     \<lparr>u_id = ''550e8400-e29b-41d4-a716-446655440000'', u_email = ''a@b.com'',
      u_name = ''Ann'', u_role = Admin, u_isActive = True, u_createdAt = 1000,
      u_updatedAt = 1000, u_salary = Some (Num 50000), u_ssn = Some ''123-45-6789''\<rparr>"

definition annBase :: BaseUser where
  "annBase =
     \<lparr>u_id = ''550e8400-e29b-41d4-a716-446655440000'', u_email = ''a@b.com'',
      u_name = ''Ann'', u_role = Admin, u_isActive = True, u_createdAt = 1000,
      u_updatedAt = 1000\<rparr>"

definition bobFull :: FullUser where
  "bobFull =
     \<lparr>u_id = ''11111111-2222-3333-4444-555555555555'', u_email = ''bob@c.org'',
      u_name = ''Bob'', u_role = User, u_isActive = True, u_createdAt = 2000,
      u_updatedAt = 2000, u_salary = None, u_ssn = None\<rparr>"

definition bobBase :: BaseUser where
  "bobBase =
     \<lparr>u_id = ''11111111-2222-3333-4444-555555555555'', u_email = ''bob@c.org'',
      u_name = ''Bob'', u_role = User, u_isActive = True, u_createdAt = 2000,
      u_updatedAt = 2000\<rparr>"



text \<open>A patch of the sensitive data that sets the national identifier only.\<close>

definition ssnPatch :: UpdateSensitiveData where
  "ssnPatch = \<lparr>upd_salary = None, upd_ssn = Some (Some ''987-65-4321'')\<rparr>"

text \<open>Two profile patches: an email that does not match the pattern, and a patch whose
  only field is the empty name.\<close>

definition badEmailPatch :: UpdateUserProfile where
  "badEmailPatch = \<lparr>upd_name = None, upd_email = Some ''not-an-email''\<rparr>"

definition emptyPatch :: UpdateUserProfile where
  "emptyPatch = \<lparr>upd_name = Some [], upd_email = None\<rparr>"

text \<open>The table after Ann's stored role has been changed to user, and the table after Bob
  has been deactivated.\<close>

definition demotedDb :: Db where
  "demotedDb = testDb\<lparr>table := [annRow\<lparr>row_role := ''user''\<rparr>, bobRow]\<rparr>"

definition inactiveDb :: Db where
  "inactiveDb = testDb\<lparr>table := [annRow, bobRow\<lparr>row_isActive := False\<rparr>]\<rparr>"

text \<open>Three requests: two with different tokens, one whose header holds no token.\<close>

definition aliceRequest :: Request where
  "aliceRequest = \<lparr>authorization = Some ''Bearer alice-token''\<rparr>"

definition forgedRequest :: Request where
  "forgedRequest = \<lparr>authorization = Some ''Bearer forged''\<rparr>"

definition noTokenRequest :: Request where
  "noTokenRequest = \<lparr>authorization = Some ''Bearer ''\<rparr>"

section \<open>Row mapper: general facts\<close>


lemma decodeBaseUser_raw:
  "decodeBaseUser (rawFull H row) = decodeBaseUser (rawUser row)"
  by (simp add: decodeBaseUser_def rawFull_def rawUser_def split: option.splits)

lemma toBaseUser_error:
  "toBaseUser row = Inl e \<Longrightarrow> \<exists>msg. e = DatabaseError msg (Some ParseError)"
  by (auto simp: toBaseUser_def split: option.splits)

lemma toFullUser_error:
  "toFullUser H row = Inl e \<Longrightarrow> \<exists>msg. e = DatabaseError msg (Some ParseError)"
  by (auto simp: toFullUser_def split: option.splits)

lemma toFullUser_base:
  assumes "toFullUser H row = Inr f"
  shows "toBaseUser row = Inr (BaseUser.truncate f)"
  using assms
  by (auto simp: toFullUser_def toBaseUser_def decodeFullUser_def decodeBaseUser_raw
        BaseUser.defs split: option.splits if_splits)

lemma toUserByRole_error:
  "toUserByRole H row r = Inl e \<Longrightarrow> \<exists>msg. e = DatabaseError msg (Some ParseError)"
  by (auto simp: toUserByRole_def split: if_splits sum.splits
        dest: toBaseUser_error toFullUser_error)

lemma toUserByRole_kind:
  "toUserByRole H row r = Inr v \<Longrightarrow> isFull v = (r = Admin)"
  by (auto simp: toUserByRole_def split: if_splits sum.splits)

lemma effectAll_map_Inr: "effectAll (map Inr ys) = Inr ys"
  by (induction ys) auto

lemma effectAll_Inr:
  "effectAll xs = Inr ys \<longleftrightarrow> xs = map Inr ys"
proof
  show "effectAll xs = Inr ys \<Longrightarrow> xs = map Inr ys"
    by (induction xs arbitrary: ys) (auto split: sum.splits)
qed (simp add: effectAll_map_Inr)

lemma effectAll_Inl:
  "effectAll xs = Inl e \<Longrightarrow> Inl e \<in> set xs"
  by (induction xs) (auto split: sum.splits)

lemma effectAll_fails:
  "x \<in> set xs \<Longrightarrow> \<forall>a. x \<noteq> Inr a \<Longrightarrow> \<exists>e. effectAll xs = Inl e"
  by (induction xs) (auto split: sum.splits)

lemma toUsersByRole_Inr:
  "toUsersByRole H rows r = Inr vs \<longleftrightarrow>
     length vs = length rows \<and> (\<forall>i<length rows. toUserByRole H (rows ! i) r = Inr (vs ! i))"
  by (auto simp: toUsersByRole_def effectAll_Inr list_eq_iff_nth_eq)


lemma decodeFullUser_cred:
  "decodeFullUser (rawCred H row) = decodeFullUser (rawFull H row)"
  by (simp add: decodeFullUser_def decodeBaseUser_def rawFull_def rawCred_def split: option.splits)


lemma toUsersByRole_error:
  assumes "row \<in> set rows" and "\<forall>v. toUserByRole H row r \<noteq> Inr v"
  shows "\<exists>msg. toUsersByRole H rows r = Inl (DatabaseError msg (Some ParseError))"
proof -
  have "toUserByRole H row r \<in> set (map (\<lambda>row. toUserByRole H row r) rows)"
    using assms(1) by simp
  then obtain e where e: "toUsersByRole H rows r = Inl e"
    unfolding toUsersByRole_def using effectAll_fails assms(2) by blast
  then have "Inl e \<in> set (map (\<lambda>row. toUserByRole H row r) rows)"
    unfolding toUsersByRole_def by (rule effectAll_Inl)
  then obtain row' where "toUserByRole H row' r = Inl e" by auto
  then show ?thesis using e toUserByRole_error by blast
qed

lemma toUsersByRole_total:
  assumes "\<forall>row\<in>set rows. \<exists>v. toUserByRole H row r = Inr v"
  shows "\<exists>vs. toUsersByRole H rows r = Inr vs"
proof (cases "toUsersByRole H rows r")
  case (Inl e)
  then have "Inl e \<in> set (map (\<lambda>row. toUserByRole H row r) rows)"
    unfolding toUsersByRole_def by (rule effectAll_Inl)
  then show ?thesis using assms by auto
next
  case (Inr vs)
  then show ?thesis by blast
qed

lemma wellFormedRow_iff:
  "wellFormedRow H row \<longleftrightarrow> (\<exists>f. toFullUser H row = Inr f)"
  apply (simp add: wellFormedRow_def toFullUser_def decodeFullUser_def decodeBaseUser_def
        rawFull_def split: option.splits)
  apply blast
  done



lemma BaseUser_fields_subset:
  "set BaseUser_fields \<subset> set FullUser_fields \<and>
   ''salary'' \<notin> set BaseUser_fields \<and> ''ssn'' \<notin> set BaseUser_fields"
proof -
  have 1: "''salary'' \<notin> set BaseUser_fields" and 2: "''ssn'' \<notin> set BaseUser_fields"
    by (simp_all add: BaseUser_fields_def)
  have 3: "set BaseUser_fields \<subseteq> set FullUser_fields"
    and 4: "''salary'' \<in> set FullUser_fields"
    by (auto simp: FullUser_fields_def SensitiveUserData_fields_def)
  from 1 3 4 have "set BaseUser_fields \<subset> set FullUser_fields" by blast
  with 1 2 show ?thesis by simp
qed

section \<open>Repository and user service: general facts\<close>

lemma filter_find:
  "(case filter p xs of [] \<Rightarrow> None | x # _ \<Rightarrow> Some x) = find p xs"
  by (induction xs) auto

lemma find_in_set: "find p xs = Some x \<Longrightarrow> x \<in> set xs \<and> p x"
  by (induction xs) (auto split: if_splits)

lemma find_None_iff_ball: "find p xs = None \<longleftrightarrow> (\<forall>x\<in>set xs. \<not> p x)"
  by (induction xs) auto

lemma whereId_Some:
  "whereId db uid = Some c \<longleftrightarrow> reachable db \<and> uuidInput db uid = Some c"
  by (simp add: whereId_def)

lemma whereId_None:
  "whereId db uid = None \<longleftrightarrow> \<not> reachable db \<or> uuidInput db uid = None"
  by (simp add: whereId_def)

lemma findById_rejected:
  "whereId db uid = None \<Longrightarrow>
     findById H uid r db =
       (Inl (DatabaseError ''Failed to fetch user from database'' (Some DriverError)),
        db\<lparr>journal := journal db @ [SelectById uid]\<rparr>)"
  by (simp add: findById_def dbSelectById_def)

lemma findById_taken:
  "whereId db uid = Some c \<Longrightarrow>
     findById H uid r db =
       (case find (\<lambda>row. row_id row = c) (table db) of
          None \<Rightarrow> Inr None
        | Some row \<Rightarrow> (case toUserByRole H row r of Inl e \<Rightarrow> Inl e | Inr v \<Rightarrow> Inr (Some v)),
        db\<lparr>journal := journal db @ [SelectById uid]\<rparr>)"
  unfolding filter_find [symmetric]
  by (simp add: findById_def dbSelectById_def split: list.splits sum.splits)

lemma findById_table: "table (snd (findById H uid r db)) = table db"
  by (cases "whereId db uid") (simp_all add: findById_rejected findById_taken)

lemma getUser_forbidden:
  "r = User \<Longrightarrow> ruid \<noteq> uid \<Longrightarrow>
     getUser H uid r ruid db =
       (Inl (ForbiddenError ''Users can only view their own profile''), db)"
  by (simp add: getUser_def)

lemma getUser_rejected:
  assumes "r = Admin \<or> ruid = uid" and "whereId db uid = None"
  shows "fst (getUser H uid r ruid db) =
           Inl (DatabaseError ''Failed to fetch user from database'' (Some DriverError))"
proof -
  from assms(1) have "\<not> (r = User \<and> ruid \<noteq> uid)" by auto
  then show ?thesis
    using assms(2) by (simp add: getUser_def findById_rejected)
qed

lemma getUser_allowed:
  assumes "r = Admin \<or> ruid = uid" and "whereId db uid = Some c"
  shows "fst (getUser H uid r ruid db) =
           (case find (\<lambda>row. row_id row = c) (table db) of
              None \<Rightarrow> Inl (NotFoundError ''User'' uid)
            | Some row \<Rightarrow> toUserByRole H row r)"
proof -
  from assms(1) have "\<not> (r = User \<and> ruid \<noteq> uid)" by auto
  then show ?thesis
    using assms(2)
    by (auto simp: getUser_def findById_taken split: option.splits sum.splits)
qed

lemma getUser_Inr:
  assumes "getUser H uid r ruid db = (Inr v, db')"
  shows "(r = Admin \<or> ruid = uid) \<and>
         (\<exists>c row. whereId db uid = Some c \<and>
                  find (\<lambda>row. row_id row = c) (table db) = Some row \<and>
                  toUserByRole H row r = Inr v)"
proof -
  from assms have a: "r = Admin \<or> ruid = uid"
    by (cases r) (auto simp: getUser_def split: if_splits)
  obtain c where c: "whereId db uid = Some c"
  proof (cases "whereId db uid")
    case None
    from getUser_rejected [OF a None, of H] assms show ?thesis by simp
  next
    case (Some c)
    then show ?thesis by (rule that)
  qed
  from getUser_allowed [OF a c, of H] assms
  show ?thesis using a c by (auto split: option.splits)
qed

lemma getUser_table: "table (snd (getUser H uid r ruid db)) = table db"
proof (cases "r = User \<and> ruid \<noteq> uid")
  case True
  then show ?thesis by (simp add: getUser_def)
next
  case False
  obtain res db1 where f: "findById H uid r db = (res, db1)" by (cases "findById H uid r db")
  then have "table db1 = table db" using findById_table [of H uid r db] by simp
  with False f show ?thesis
    by (simp add: getUser_def split: sum.splits option.splits)
qed

lemma toUsersByRole_kind:
  assumes "toUsersByRole H rows r = Inr vs" and "v \<in> set vs"
  shows "isFull v = (r = Admin)"
proof -
  from assms(2) obtain i where i: "i < length vs" and v: "vs ! i = v"
    by (auto simp: in_set_conv_nth)
  from assms(1) i have "toUserByRole H (rows ! i) r = Inr (vs ! i)"
    by (simp add: toUsersByRole_Inr)
  then show ?thesis using v toUserByRole_kind by blast
qed

lemma findAll_Inr:
  "findAll H r db = (Inr vs, db') \<Longrightarrow>
     toUsersByRole H (filter row_isActive (table db)) r = Inr vs"
  by (auto simp: findAll_def dbSelect_def split: if_splits)

lemma findAll_table: "table (snd (findAll H r db)) = table db"
  by (simp add: findAll_def dbSelect_def)

lemma dbUpdate_sensitive_kept:
  assumes "set_salary u = None" and "set_ssn u = None"
  shows "map row_salary (table (snd (dbUpdate uid u db))) = map row_salary (table db) \<and>
         map row_ssn (table (snd (dbUpdate uid u db))) = map row_ssn (table db)"
  using assms by (simp add: dbUpdate_def applyUpdates_def split: option.splits)

lemma update_sensitive_kept:
  "map row_salary (table (snd (update uid data db))) = map row_salary (table db) \<and>
   map row_ssn (table (snd (update uid data db))) = map row_ssn (table db)"
proof (cases "keyCount (profileUpdates data) = 0")
  case True
  then show ?thesis by (simp add: update_def)
next
  case False
  let ?u = "(profileUpdates data)\<lparr>set_updatedAt := Some (clock db)\<rparr>"
  have u: "set_salary ?u = None" "set_ssn ?u = None"
    by (simp_all add: profileUpdates_def noUpdates_def)
  have "table (snd (update uid data db)) = table (snd (dbUpdate uid ?u db))"
    using False by (simp add: update_def Let_def split: prod.splits option.splits)
  then show ?thesis using dbUpdate_sensitive_kept [OF u] by simp
qed

lemma updateProfile_sensitive_kept:
  "map row_salary (table (snd (updateProfile uid data r ruid db))) = map row_salary (table db) \<and>
   map row_ssn (table (snd (updateProfile uid data r ruid db))) = map row_ssn (table db)"
  using update_sensitive_kept by (simp add: updateProfile_def)

lemma updateSensitiveData_not_admin:
  "r \<noteq> Admin \<Longrightarrow>
     updateSensitiveData H uid data r ruid db =
       (Inl (ForbiddenError ''Admin access required''), db)"
  by (simp add: updateSensitiveData_def)

lemma keyCount_profileUpdates:
  "keyCount (profileUpdates data) = 0 \<longleftrightarrow>
     truthy (upd_name data) = None \<and> truthy (upd_email data) = None"
  by (simp add: keyCount_def profileUpdates_def noUpdates_def)

lemma update_empty:
  "truthy (upd_name data) = None \<Longrightarrow> truthy (upd_email data) = None \<Longrightarrow>
     update uid data db = (Inr False, db)"
  by (simp add: update_def keyCount_profileUpdates)

lemma update_journal:
  "\<not> (truthy (upd_name data) = None \<and> truthy (upd_email data) = None) \<Longrightarrow>
     journal (snd (update uid data db)) =
       journal db @ [UpdateById uid
                       \<lparr>set_name = truthy (upd_name data), set_email = truthy (upd_email data),
                        set_salary = None, set_ssn = None,
                        set_updatedAt = Some (clock db)\<rparr>]"
proof -
  assume "\<not> (truthy (upd_name data) = None \<and> truthy (upd_email data) = None)"
  then have k: "keyCount (profileUpdates data) \<noteq> 0"
    by (simp add: keyCount_profileUpdates)
  have u: "(profileUpdates data)\<lparr>set_updatedAt := Some (clock db)\<rparr> =
             \<lparr>set_name = truthy (upd_name data), set_email = truthy (upd_email data),
              set_salary = None, set_ssn = None, set_updatedAt = Some (clock db)\<rparr>"
    by (simp add: profileUpdates_def noUpdates_def)
  show ?thesis
    using k unfolding update_def Let_def u by (simp add: dbUpdate_def split: option.splits)
qed

section \<open>Credential service and authorization context: general facts\<close>

lemma roleString_decodeRoleName: "decodeRoleName s = Some r \<Longrightarrow> roleString r = s"
  by (auto simp: decodeRoleName_def split: if_splits)

lemma decodeRoleName_roleString: "decodeRoleName (roleString r) = Some r"
  by (cases r) (simp_all add: decodeRoleName_def)

lemma decodeAuthContext_roleString:
  "isUUID uid \<Longrightarrow> decodeAuthContext uid (roleString r) = Some \<lparr>userId = uid, ctx_role = r\<rparr>"
  by (simp add: decodeAuthContext_def decodeRoleName_roleString)

lemma decodeFullUser_fields:
  "decodeFullUser raw = Some f \<Longrightarrow>
     u_id f = raw_id raw \<and> u_email f = raw_email raw \<and> isUUID (raw_id raw) \<and>
     decodeRoleName (raw_role raw) = Some (u_role f) \<and> u_isActive f = raw_isActive raw"
  by (auto simp: decodeFullUser_def decodeBaseUser_def split: option.splits if_splits)

lemma toUserWithPassword_fields:
  assumes "toUserWithPassword H row = Inr u"
  shows "u_id u = row_id row \<and> u_email u = row_email row \<and> isUUID (row_id row) \<and>
         decodeRoleName (row_role row) = Some (u_role u) \<and>
         u_isActive u = row_isActive row \<and> u_password u = row_password row"
proof -
  from assms obtain f where f: "decodeFullUser (rawCred H row) = Some f"
    and u: "u = \<lparr>u_id = u_id f, u_email = u_email f, u_name = u_name f,
                 u_role = u_role f, u_isActive = u_isActive f,
                 u_createdAt = u_createdAt f, u_updatedAt = u_updatedAt f,
                 u_salary = u_salary f, u_ssn = u_ssn f,
                 u_password = row_password row\<rparr>"
    by (auto simp: toUserWithPassword_def decodeUserWithPassword_def rawCred_def
          split: option.splits if_splits)
  from decodeFullUser_fields [OF f] show ?thesis
    by (simp add: u rawCred_def)
qed

lemma toUserWithPassword_total:
  assumes "wellFormedRow H row" and "passwordRule (row_password row)"
  shows "\<exists>u. toUserWithPassword H row = Inr u"
proof -
  from assms(1) obtain f where "toFullUser H row = Inr f"
    by (auto simp: wellFormedRow_iff)
  then have "decodeFullUser (rawCred H row) = Some f"
    by (auto simp: toFullUser_def decodeFullUser_cred split: option.splits)
  with assms(2) show ?thesis
    by (simp add: toUserWithPassword_def decodeUserWithPassword_def rawCred_def)
qed

lemma findByEmail_unreachable:
  "\<not> reachable db \<Longrightarrow>
     findByEmail H email db =
       (Inl (DatabaseError ''Failed to fetch user by email from database'' (Some DriverError)),
        db\<lparr>journal := journal db @ [SelectByEmail email]\<rparr>)"
  by (simp add: findByEmail_def dbSelect_def)

lemma findByEmail_reachable:
  "reachable db \<Longrightarrow>
     findByEmail H email db =
       (case find (\<lambda>row. row_email row = email) (table db) of
          None \<Rightarrow> Inr None
        | Some row \<Rightarrow> (case toUserWithPassword H row of Inl e \<Rightarrow> Inl e | Inr u \<Rightarrow> Inr (Some u)),
        db\<lparr>journal := journal db @ [SelectByEmail email]\<rparr>)"
  unfolding filter_find [symmetric]
  by (simp add: findByEmail_def dbSelect_def split: list.splits sum.splits)

lemma findByEmail_Some:
  assumes "findByEmail H email db = (Inr (Some u), db')"
  shows "reachable db \<and>
         (\<exists>row. find (\<lambda>row. row_email row = email) (table db) = Some row \<and>
                toUserWithPassword H row = Inr u)"
proof -
  have re: "reachable db"
  proof (rule ccontr)
    assume "\<not> reachable db"
    with assms show False by (simp add: findByEmail_unreachable)
  qed
  with assms show ?thesis
    by (auto simp: findByEmail_reachable split: option.splits sum.splits)
qed

lemma verifyJwt_found:
  assumes "token \<noteq> []" and "jwt_verify H token (jwtSecret env) = Some p"
    and "reachable db"
  shows "fst (verifyJwt H env token db) =
           (case find (\<lambda>row. row_email row = jwt_email p) (table db) of
              None \<Rightarrow> Inl (AuthenticationError ''User not found'')
            | Some row \<Rightarrow>
                (case toUserWithPassword H row of
                   Inl e \<Rightarrow> Inl e
                 | Inr u \<Rightarrow>
                     if \<not> row_isActive row
                     then Inl (AuthenticationError ''User account is inactive'')
                     else Inr \<lparr>userId = row_id row, ctx_role = u_role u\<rparr>))"
proof (cases "find (\<lambda>row. row_email row = jwt_email p) (table db)")
  case None
  with assms show ?thesis by (simp add: verifyJwt_def findByEmail_reachable)
next
  case (Some row)
  show ?thesis
  proof (cases "toUserWithPassword H row")
    case (Inl e)
    with Some assms show ?thesis by (simp add: verifyJwt_def findByEmail_reachable)
  next
    case (Inr u)
    from toUserWithPassword_fields [OF Inr]
    have "decodeAuthContext (u_id u) (roleString (u_role u)) =
            Some \<lparr>userId = row_id row, ctx_role = u_role u\<rparr>"
      and "u_isActive u = row_isActive row"
      by (simp_all add: decodeAuthContext_roleString)
    with Some Inr assms show ?thesis by (simp add: verifyJwt_def findByEmail_reachable)
  qed
qed

lemma verifyJwt_Inr:
  assumes "verifyJwt H env token db = (Inr ctx, db')"
  shows "\<exists>p row. jwt_verify H token (jwtSecret env) = Some p \<and>
           find (\<lambda>row. row_email row = jwt_email p) (table db) = Some row \<and>
           row_isActive row \<and> userId ctx = row_id row \<and>
           roleString (ctx_role ctx) = row_role row"
proof -
  from assms have t: "token \<noteq> []" by (auto simp: verifyJwt_def split: if_splits)
  with assms obtain p where p: "jwt_verify H token (jwtSecret env) = Some p"
    by (auto simp: verifyJwt_def split: option.splits)
  have re: "reachable db"
  proof (rule ccontr)
    assume "\<not> reachable db"
    with assms t p show False by (simp add: verifyJwt_def findByEmail_unreachable)
  qed
  from verifyJwt_found [OF t p re] assms
  obtain row u where row: "find (\<lambda>row. row_email row = jwt_email p) (table db) = Some row"
    and u: "toUserWithPassword H row = Inr u" and a: "row_isActive row"
    and c: "ctx = \<lparr>userId = row_id row, ctx_role = u_role u\<rparr>"
    by (auto split: option.splits sum.splits if_splits)
  from toUserWithPassword_fields [OF u] have "roleString (u_role u) = row_role row"
    by (simp add: roleString_decodeRoleName)
  with p row a c show ?thesis by simp
qed

lemma login_found:
  assumes "reachable db"
  shows "fst (login H env email pw db) =
           (case find (\<lambda>row. row_email row = email) (table db) of
              None \<Rightarrow> Inl (AuthenticationError ''Invalid email or password'')
            | Some row \<Rightarrow>
                (case toUserWithPassword H row of
                   Inl e \<Rightarrow> Inl e
                 | Inr u \<Rightarrow>
                     if \<not> row_isActive row
                     then Inl (AuthenticationError ''User account is inactive'')
                     else if \<not> bcrypt_compare H pw (row_password row)
                     then Inl (AuthenticationError ''Invalid email or password'')
                     else generateToken H env (row_id row) (row_email row) (row_role row)))"
proof (cases "find (\<lambda>row. row_email row = email) (table db)")
  case None
  with assms show ?thesis by (simp add: login_def findByEmail_reachable)
next
  case (Some row)
  show ?thesis
  proof (cases "toUserWithPassword H row")
    case (Inl e)
    with Some assms show ?thesis by (simp add: login_def findByEmail_reachable)
  next
    case (Inr u)
    from toUserWithPassword_fields [OF Inr]
    have "u_id u = row_id row" "u_email u = row_email row" "u_isActive u = row_isActive row"
      "u_password u = row_password row" "roleString (u_role u) = row_role row"
      by (simp_all add: roleString_decodeRoleName)
    with Some Inr assms show ?thesis
      by (simp add: login_def findByEmail_reachable verifyPassword_def)
  qed
qed

lemma login_Inr:
  assumes "login H env email pw db = (Inr tok, db')"
  shows "\<exists>row. find (\<lambda>row. row_email row = email) (table db) = Some row \<and>
           row_isActive row \<and> bcrypt_compare H pw (row_password row) \<and>
           jwt_sign H \<lparr>jwt_userId = row_id row, jwt_email = row_email row,
                        jwt_role = row_role row\<rparr> (jwtSecret env) (expiresIn env) = Some tok"
proof -
  have re: "reachable db"
  proof (rule ccontr)
    assume "\<not> reachable db"
    with assms show False by (simp add: login_def findByEmail_unreachable)
  qed
  from login_found [OF re, of H env email pw] assms
  show ?thesis
    by (auto simp: generateToken_def split: option.splits sum.splits if_splits)
qed

lemma decode_hardcoded:
  "decodeAuthContext ''550e8400-e29b-41d4-a716-446655440000'' ''admin'' = Some hardcodedContext"
  by (simp add: decodeAuthContext_def hardcodedContext_def decodeRoleName_def isUUID_def
        isHexDigit_def isDigit_def)

lemma withAuth_token:
  "bearerToken request \<noteq> [] \<Longrightarrow> withAuth request effect db = effect hardcodedContext db"
  by (simp add: withAuth_def decode_hardcoded)

lemma withAuth_no_token:
  "bearerToken request = [] \<Longrightarrow> withAuth request effect db = (Inl (Unauthorized ''No token''), db)"
  by (simp add: withAuth_def)

section \<open>The example rows, evaluated\<close>

lemmas rule_defs = isUUID_def isHexDigit_def isDigit_def emailPattern_def emailChar_def
  isWhiteSpace_def nameRule_def decodeRoleName_def salaryRule_def ssnRule_def ssnPattern_def
  passwordRule_def

lemma testParseFloat_50000: "testParseFloat ''50000.00'' = Num 50000"
  by (simp add: testParseFloat_def isWhiteSpace_def isDigit_def digitsValue_def exponentOf_def Let_def)

lemma annRow_full: "toFullUser testHost annRow = Inr annFull"
  by (simp add: toFullUser_def decodeFullUser_def decodeBaseUser_def rawFull_def salaryOfRow_def
        annRow_def annFull_def testHost_def testParseFloat_50000 rule_defs)

lemma annRow_base: "toBaseUser annRow = Inr annBase"
  by (simp add: toBaseUser_def decodeBaseUser_def rawUser_def annRow_def annBase_def rule_defs)

lemma bobRow_full: "toFullUser testHost bobRow = Inr bobFull"
  by (simp add: toFullUser_def decodeFullUser_def decodeBaseUser_def rawFull_def salaryOfRow_def
        bobRow_def bobFull_def testHost_def rule_defs)

lemma bobRow_base: "toBaseUser bobRow = Inr bobBase"
  by (simp add: toBaseUser_def decodeBaseUser_def rawUser_def bobRow_def bobBase_def rule_defs)

lemma annBase_truncate: "BaseUser.truncate annFull = annBase"
  by (simp add: annFull_def annBase_def BaseUser.defs)

lemma bobBase_truncate: "BaseUser.truncate bobFull = bobBase"
  by (simp add: bobFull_def bobBase_def BaseUser.defs)

lemma malformedRow_fails:
  "toUserByRole testHost malformedRow r =
     Inl (DatabaseError (if r = Admin then ''Failed to map database row to FullUser domain model''
                         else ''Failed to map database row to BaseUser domain model'')
            (Some ParseError))"
  by (simp add: toUserByRole_def toFullUser_def toBaseUser_def decodeFullUser_def
        decodeBaseUser_def rawFull_def rawUser_def malformedRow_def bobRow_def
        emailPattern_def emailChar_def isWhiteSpace_def)

lemma annRow_wellFormed: "wellFormedRow testHost annRow"
  by (simp add: wellFormedRow_iff annRow_full)



lemmas uuid_eval = testUuidInput_def eval_nat_numeral isHexDigit_def isDigit_def lowerHex_def
  printUuid_def Let_def

lemma whereId_ann: "whereId testDb (row_id annRow) = Some (row_id annRow)"
  by (simp add: whereId_def testDb_def annRow_def uuid_eval)

lemma whereId_bob: "whereId testDb (row_id bobRow) = Some (row_id bobRow)"
  by (simp add: whereId_def testDb_def bobRow_def uuid_eval)

lemma whereId_upper_case:
  "whereId testDb ''550E8400-E29B-41D4-A716-446655440000'' = Some (row_id annRow)"
  by (simp add: whereId_def testDb_def annRow_def uuid_eval)

lemma whereId_absent:
  "whereId testDb ''99999999-9999-4999-8999-999999999999'' =
     Some ''99999999-9999-4999-8999-999999999999''"
  by (simp add: whereId_def testDb_def uuid_eval)

lemma whereId_not_a_uuid: "whereId testDb ''no-such-id'' = None"
  by (simp add: whereId_def testDb_def uuid_eval)

lemma find_absent:
  "find (\<lambda>row. row_id row = ''99999999-9999-4999-8999-999999999999'') (table testDb) = None"
  by (simp add: testDb_def annRow_def bobRow_def)

lemma find_ann: "find (\<lambda>row. row_id row = row_id annRow) (table testDb) = Some annRow"
  by (simp add: testDb_def annRow_def)

lemma find_bob: "find (\<lambda>row. row_id row = row_id bobRow) (table testDb) = Some bobRow"
  by (simp add: testDb_def annRow_def bobRow_def)

lemma ids_differ: "row_id annRow \<noteq> row_id bobRow"
  by (simp add: annRow_def bobRow_def)

lemma testDb_reachable: "reachable testDb"
  by (simp add: testDb_def)

lemma ssnPatch_by_admin:
  "updateSensitiveData testHost (row_id bobRow) ssnPatch Admin (row_id annRow) testDb =
     (Inr True,
      testDb\<lparr>table := [annRow, bobRow\<lparr>row_ssn := Some ''987-65-4321'', row_updatedAt := 5000\<rparr>],
             journal := [UpdateById (row_id bobRow)
                           \<lparr>set_name = None, set_email = None, set_salary = None,
                            set_ssn = Some (Some ''987-65-4321''),
                            set_updatedAt = Some 5000\<rparr>]\<rparr>)"
proof -
  have "updateSensitiveData testHost (row_id bobRow) ssnPatch Admin (row_id annRow) testDb =
          (Inr (0 < resultLength testDb
                       (length (filter (\<lambda>r. row_id r = row_id bobRow) (table testDb)))),
           testDb\<lparr>table := map (\<lambda>r. if row_id r = row_id bobRow
                                       then applyUpdates
                                              \<lparr>set_name = None, set_email = None,
                                               set_salary = None,
                                               set_ssn = Some (Some ''987-65-4321''),
                                               set_updatedAt = Some (clock testDb)\<rparr> r
                                       else r) (table testDb),
                  journal := journal testDb @
                             [UpdateById (row_id bobRow)
                                \<lparr>set_name = None, set_email = None, set_salary = None,
                                 set_ssn = Some (Some ''987-65-4321''),
                                 set_updatedAt = Some (clock testDb)\<rparr>]\<rparr>)"
    by (simp add: updateSensitiveData_def updateSensitive_def sensitiveUpdates_def noUpdates_def
          keyCount_def dbUpdate_def whereId_bob ssnPatch_def Let_def)
  then show ?thesis
    by (simp add: applyUpdates_def testDb_def annRow_def bobRow_def)
qed

lemma badEmail_not_email: "\<not> emailPattern ''not-an-email''"
  by (simp add: emailPattern_def emailChar_def isWhiteSpace_def)

lemma badEmailPatch_truthy:
  "truthy (upd_name badEmailPatch) = None \<and>
   truthy (upd_email badEmailPatch) = Some ''not-an-email''"
  by (simp add: truthy_def badEmailPatch_def)

lemma emptyPatch_truthy:
  "truthy (upd_name emptyPatch) = None \<and> truthy (upd_email emptyPatch) = None"
  by (simp add: truthy_def emptyPatch_def)

lemma annRow_cred: "\<exists>u. toUserWithPassword testHost annRow = Inr u"
  by (rule toUserWithPassword_total [OF annRow_wellFormed]) (simp add: passwordRule_def annRow_def)

lemma bobRow_wellFormed: "wellFormedRow testHost bobRow"
  by (simp add: wellFormedRow_iff bobRow_full)

lemma bobRow_cred: "\<exists>u. toUserWithPassword testHost bobRow = Inr u"
  by (rule toUserWithPassword_total [OF bobRow_wellFormed]) (simp add: passwordRule_def bobRow_def)

lemma demotedAnn_cred: "\<exists>u. toUserWithPassword testHost (annRow\<lparr>row_role := ''user''\<rparr>) = Inr u"
proof (rule toUserWithPassword_total)
  show "wellFormedRow testHost (annRow\<lparr>row_role := ''user''\<rparr>)"
    using annRow_wellFormed
    by (simp add: wellFormedRow_def salaryOfRow_def decodeRoleName_def)
  show "passwordRule (row_password (annRow\<lparr>row_role := ''user''\<rparr>))"
    by (simp add: passwordRule_def annRow_def)
qed

lemma inactiveBob_cred: "\<exists>u. toUserWithPassword testHost (bobRow\<lparr>row_isActive := False\<rparr>) = Inr u"
proof (rule toUserWithPassword_total)
  show "wellFormedRow testHost (bobRow\<lparr>row_isActive := False\<rparr>)"
    using bobRow_wellFormed by (simp add: wellFormedRow_def salaryOfRow_def)
  show "passwordRule (row_password (bobRow\<lparr>row_isActive := False\<rparr>))"
    by (simp add: passwordRule_def bobRow_def)
qed

lemma testHost_verify:
  "jwt_verify testHost (''tok:'' @ email) (jwtSecret testEnv) =
     Some \<lparr>jwt_userId = [], jwt_email = email, jwt_role = ''user''\<rparr>"
  by (simp add: testHost_def)

lemma testHost_verify_garbage: "jwt_verify testHost ''garbage'' (jwtSecret testEnv) = None"
  by (simp add: testHost_def)

lemma find_email_ann:
  "find (\<lambda>row. row_email row = ''a@b.com'') (table testDb) = Some annRow"
  by (simp add: testDb_def annRow_def)

lemma find_email_demoted:
  "find (\<lambda>row. row_email row = ''a@b.com'') (table demotedDb) =
     Some (annRow\<lparr>row_role := ''user''\<rparr>)"
  by (simp add: demotedDb_def testDb_def annRow_def)

lemma find_email_inactive:
  "find (\<lambda>row. row_email row = ''bob@c.org'') (table inactiveDb) =
     Some (bobRow\<lparr>row_isActive := False\<rparr>)"
  by (simp add: inactiveDb_def testDb_def annRow_def bobRow_def)

lemma find_email_nobody:
  "find (\<lambda>row. row_email row = ''nobody@x.org'') (table testDb) = None"
  by (simp add: testDb_def annRow_def bobRow_def)

lemma dbs_reachable: "reachable demotedDb \<and> reachable inactiveDb"
  by (simp add: demotedDb_def inactiveDb_def testDb_def)

lemma request_tokens:
  "bearerToken aliceRequest = ''alice-token'' \<and> bearerToken forgedRequest = ''forged'' \<and>
   bearerToken noTokenRequest = []"
  by (simp add: bearerToken_def aliceRequest_def forgedRequest_def noTokenRequest_def)

section \<open>Batch mapping\<close>

text \<open>
  Claim C8. For every ordered sequence of rows and every requested role, the batch mapping
  \<^verbatim>\<open>toUsersByRole\<close> maps each row to the same kind of view and keeps the input order: when
  it succeeds, the result has one view per row, the view at each index is the mapping of
  the row at that index, and every view is a full view exactly when the requested role is
  admin. If any single row fails to map, the whole batch fails with the mapping error
  (a \<^verbatim>\<open>DatabaseError\<close> caused by the decode failure) and no list is returned. If every row
  maps, the batch succeeds.
\<close>

theorem toUsersByRole_batch:
  "(\<forall>vs. toUsersByRole H rows r = Inr vs \<longrightarrow>
       length vs = length rows \<and>
       (\<forall>i<length rows. toUserByRole H (rows ! i) r = Inr (vs ! i) \<and>
                          isFull (vs ! i) = (r = Admin))) \<and>
   ((\<exists>row\<in>set rows. \<forall>v. toUserByRole H row r \<noteq> Inr v) \<longrightarrow>
       (\<exists>msg. toUsersByRole H rows r = Inl (DatabaseError msg (Some ParseError)))) \<and>
   ((\<forall>row\<in>set rows. \<exists>v. toUserByRole H row r = Inr v) \<longrightarrow>
       (\<exists>vs. toUsersByRole H rows r = Inr vs))"
proof (intro conjI)
  show "\<forall>vs. toUsersByRole H rows r = Inr vs \<longrightarrow>
       length vs = length rows \<and>
       (\<forall>i<length rows. toUserByRole H (rows ! i) r = Inr (vs ! i) \<and>
                          isFull (vs ! i) = (r = Admin))"
    using toUserByRole_kind by (auto simp: toUsersByRole_Inr)
  show "(\<exists>row\<in>set rows. \<forall>v. toUserByRole H row r \<noteq> Inr v) \<longrightarrow>
       (\<exists>msg. toUsersByRole H rows r = Inl (DatabaseError msg (Some ParseError)))"
    using toUsersByRole_error by blast
  show "(\<forall>row\<in>set rows. \<exists>v. toUserByRole H row r = Inr v) \<longrightarrow>
       (\<exists>vs. toUsersByRole H rows r = Inr vs)"
    using toUsersByRole_total by blast
qed

theorem toUsersByRole_batch_witness:
  "(\<exists>v. toUserByRole testHost annRow User = Inr v) \<and>
   (\<exists>v. toUserByRole testHost bobRow User = Inr v) \<and>
   (\<exists>vs. toUsersByRole testHost [annRow, bobRow] User = Inr vs \<and> length vs = 2 \<and>
         toUserByRole testHost annRow User = Inr (vs ! 0) \<and>
         toUserByRole testHost bobRow User = Inr (vs ! 1) \<and>
         \<not> isFull (vs ! 0) \<and> \<not> isFull (vs ! 1)) \<and>
   (\<exists>row\<in>set [annRow, malformedRow, bobRow]. \<forall>v. toUserByRole testHost row Admin \<noteq> Inr v) \<and>
   (\<exists>msg. toUsersByRole testHost [annRow, malformedRow, bobRow] Admin =
            Inl (DatabaseError msg (Some ParseError)))"
proof -
  note batch = toUsersByRole_batch [of testHost "[annRow, bobRow]" User]
  have ok: "\<forall>row\<in>set [annRow, bobRow]. \<exists>v. toUserByRole testHost row User = Inr v"
    by (simp add: toUserByRole_def annRow_base bobRow_base)
  have bad: "\<exists>row\<in>set [annRow, malformedRow, bobRow]. \<forall>v. toUserByRole testHost row Admin \<noteq> Inr v"
    by (simp add: malformedRow_fails)
  from batch ok obtain vs where vs: "toUsersByRole testHost [annRow, bobRow] User = Inr vs"
    by blast
  with batch have len: "length vs = length [annRow, bobRow]"
    and nth: "\<forall>i<length [annRow, bobRow].
                toUserByRole testHost ([annRow, bobRow] ! i) User = Inr (vs ! i) \<and>
                isFull (vs ! i) = (User = Admin)"
    by blast+
  from nth [rule_format, of 0] nth [rule_format, of 1]
  have "toUserByRole testHost annRow User = Inr (vs ! 0) \<and>
        toUserByRole testHost bobRow User = Inr (vs ! 1) \<and>
        \<not> isFull (vs ! 0) \<and> \<not> isFull (vs ! 1)"
    by simp
  moreover from toUsersByRole_batch [of testHost "[annRow, malformedRow, bobRow]" Admin] bad
  have "\<exists>msg. toUsersByRole testHost [annRow, malformedRow, bobRow] Admin =
            Inl (DatabaseError msg (Some ParseError))"
    by blast
  ultimately show ?thesis using vs len ok bad by auto
qed

section \<open>The base view inside the full view\<close>

text \<open>
  Claim C10. For every well-formed row, mapping it with requested role admin yields a
  full view, mapping it with requested role user yields a base view, and the fields the two
  share (id, email, name, role, isActive, createdAt, updatedAt) are equal: the base view is
  the full view cut down to the fields of \<^verbatim>\<open>BaseUser\<close>. The keys of the base view are a
  strict subset of the keys of the full view and hold neither \<^verbatim>\<open>salary\<close> nor \<^verbatim>\<open>ssn\<close>.
\<close>

theorem base_view_subset_of_full_view:
  assumes "wellFormedRow H row"
  shows "\<exists>f b. toUserByRole H row Admin = Inr (Full f) \<and>
               toUserByRole H row User = Inr (Base b) \<and>
               b = BaseUser.truncate f \<and>
               u_id b = u_id f \<and> u_email b = u_email f \<and> u_name b = u_name f \<and>
               u_role b = u_role f \<and> u_isActive b = u_isActive f \<and>
               u_createdAt b = u_createdAt f \<and> u_updatedAt b = u_updatedAt f \<and>
               set (viewKeys (Base b)) \<subset> set (viewKeys (Full f)) \<and>
               ''salary'' \<notin> set (viewKeys (Base b)) \<and> ''ssn'' \<notin> set (viewKeys (Base b))"
proof -
  from assms obtain f where f: "toFullUser H row = Inr f"
    by (auto simp: wellFormedRow_iff)
  then have b: "toBaseUser row = Inr (BaseUser.truncate f)"
    by (rule toFullUser_base)
  have "toUserByRole H row Admin = Inr (Full f)"
    and "toUserByRole H row User = Inr (Base (BaseUser.truncate f))"
    using f b by (simp_all add: toUserByRole_def)
  then show ?thesis
    using BaseUser_fields_subset by (simp add: BaseUser.defs)
qed

theorem base_view_subset_of_full_view_witness:
  "wellFormedRow testHost annRow \<and>
   (\<exists>f b. toUserByRole testHost annRow Admin = Inr (Full f) \<and>
          toUserByRole testHost annRow User = Inr (Base b) \<and>
          b = BaseUser.truncate f \<and> f = annFull \<and> b = annBase)"
proof -
  from base_view_subset_of_full_view [OF annRow_wellFormed]
  obtain f b where f: "toUserByRole testHost annRow Admin = Inr (Full f)"
    and b: "toUserByRole testHost annRow User = Inr (Base b)" and t: "b = BaseUser.truncate f"
    by blast
  from f have "f = annFull" by (simp add: toUserByRole_def annRow_full)
  moreover from b have "b = annBase" by (simp add: toUserByRole_def annRow_base)
  ultimately show ?thesis using f b t annRow_wellFormed by blast
qed

section \<open>Stored salaries\<close>




section \<open>Reading one user\<close>

text \<open>
  Claim C5. For every target id and resolved context, \<^verbatim>\<open>getUser\<close> fails with
  \<^verbatim>\<open>ForbiddenError\<close>, leaving storage untouched, when the caller's role is user and the
  caller's id is not the target id. Otherwise it fetches by id: when the database takes
  the target id for a uuid and no row has that uuid, it fails with \<^verbatim>\<open>NotFoundError\<close>; when a
  row has it, the result is the mapping of that row under the caller's role; and when the
  database is out of reach or does not take the target id for a uuid, the statement fails
  and the result is the \<^verbatim>\<open>DatabaseError\<close> of the fetch. Whenever \<^verbatim>\<open>getUser\<close> succeeds, the
  view is the mapping of the row whose id is the uuid the target id denotes, it is a full
  view exactly when the caller's role is admin, whatever role that row stores, and the
  base view a user receives has neither a \<^verbatim>\<open>salary\<close> nor an \<^verbatim>\<open>ssn\<close> key.
\<close>

theorem getUser_access_and_view:
  "(r = User \<and> ruid \<noteq> uid \<longrightarrow>
      getUser H uid r ruid db =
        (Inl (ForbiddenError ''Users can only view their own profile''), db)) \<and>
   (\<forall>c. (r = Admin \<or> ruid = uid) \<and> reachable db \<and> uuidInput db uid = Some c \<and>
      find (\<lambda>row. row_id row = c) (table db) = None \<longrightarrow>
      fst (getUser H uid r ruid db) = Inl (NotFoundError ''User'' uid)) \<and>
   (\<forall>c row. (r = Admin \<or> ruid = uid) \<and> reachable db \<and> uuidInput db uid = Some c \<and>
      find (\<lambda>row. row_id row = c) (table db) = Some row \<longrightarrow>
      fst (getUser H uid r ruid db) = toUserByRole H row r) \<and>
   ((r = Admin \<or> ruid = uid) \<and> (\<not> reachable db \<or> uuidInput db uid = None) \<longrightarrow>
      fst (getUser H uid r ruid db) =
        Inl (DatabaseError ''Failed to fetch user from database'' (Some DriverError))) \<and>
   (\<forall>v db'. getUser H uid r ruid db = (Inr v, db') \<longrightarrow>
      isFull v = (r = Admin) \<and>
      (\<exists>c row. reachable db \<and> uuidInput db uid = Some c \<and>
               find (\<lambda>row. row_id row = c) (table db) = Some row \<and>
               toUserByRole H row r = Inr v) \<and>
      (r = User \<longrightarrow> (\<exists>b. v = Base b) \<and>
         ''salary'' \<notin> set (viewKeys v) \<and> ''ssn'' \<notin> set (viewKeys v)))"
proof (intro conjI)
  show "r = User \<and> ruid \<noteq> uid \<longrightarrow>
      getUser H uid r ruid db =
        (Inl (ForbiddenError ''Users can only view their own profile''), db)"
    by (simp add: getUser_forbidden)
  show "\<forall>c. (r = Admin \<or> ruid = uid) \<and> reachable db \<and> uuidInput db uid = Some c \<and>
      find (\<lambda>row. row_id row = c) (table db) = None \<longrightarrow>
      fst (getUser H uid r ruid db) = Inl (NotFoundError ''User'' uid)"
    using getUser_allowed [of r ruid uid db _ H] by (simp add: whereId_Some)
  show "\<forall>c row. (r = Admin \<or> ruid = uid) \<and> reachable db \<and> uuidInput db uid = Some c \<and>
      find (\<lambda>row. row_id row = c) (table db) = Some row \<longrightarrow>
      fst (getUser H uid r ruid db) = toUserByRole H row r"
    using getUser_allowed [of r ruid uid db _ H] by (simp add: whereId_Some)
  show "(r = Admin \<or> ruid = uid) \<and> (\<not> reachable db \<or> uuidInput db uid = None) \<longrightarrow>
      fst (getUser H uid r ruid db) =
        Inl (DatabaseError ''Failed to fetch user from database'' (Some DriverError))"
    using getUser_rejected [of r ruid uid db H] by (simp add: whereId_None)
  show "\<forall>v db'. getUser H uid r ruid db = (Inr v, db') \<longrightarrow>
      isFull v = (r = Admin) \<and>
      (\<exists>c row. reachable db \<and> uuidInput db uid = Some c \<and>
               find (\<lambda>row. row_id row = c) (table db) = Some row \<and>
               toUserByRole H row r = Inr v) \<and>
      (r = User \<longrightarrow> (\<exists>b. v = Base b) \<and>
         ''salary'' \<notin> set (viewKeys v) \<and> ''ssn'' \<notin> set (viewKeys v))"
  proof (intro allI impI)
    fix v db' assume g: "getUser H uid r ruid db = (Inr v, db')"
    from getUser_Inr [OF g] obtain c row
      where c: "reachable db \<and> uuidInput db uid = Some c"
        and row: "find (\<lambda>row. row_id row = c) (table db) = Some row"
        and v: "toUserByRole H row r = Inr v"
      by (auto simp: whereId_Some)
    from v have k: "isFull v = (r = Admin)" by (rule toUserByRole_kind)
    have "r = User \<longrightarrow> (\<exists>b. v = Base b) \<and>
         ''salary'' \<notin> set (viewKeys v) \<and> ''ssn'' \<notin> set (viewKeys v)"
      using k BaseUser_fields_subset by (cases v) auto
    with k c row v show "isFull v = (r = Admin) \<and>
      (\<exists>c row. reachable db \<and> uuidInput db uid = Some c \<and>
               find (\<lambda>row. row_id row = c) (table db) = Some row \<and>
               toUserByRole H row r = Inr v) \<and>
      (r = User \<longrightarrow> (\<exists>b. v = Base b) \<and>
         ''salary'' \<notin> set (viewKeys v) \<and> ''ssn'' \<notin> set (viewKeys v))"
      by blast
  qed
qed

theorem getUser_access_and_view_witness:
  "getUser testHost (row_id annRow) User (row_id bobRow) testDb =
     (Inl (ForbiddenError ''Users can only view their own profile''), testDb) \<and>
   fst (getUser testHost (row_id annRow) User (row_id annRow) testDb) = Inr (Base annBase) \<and>
   fst (getUser testHost (row_id bobRow) Admin (row_id annRow) testDb) = Inr (Full bobFull) \<and>
   fst (getUser testHost ''550E8400-E29B-41D4-A716-446655440000'' Admin (row_id bobRow) testDb) =
     Inr (Full annFull) \<and>
   fst (getUser testHost ''99999999-9999-4999-8999-999999999999'' Admin (row_id annRow) testDb) =
     Inl (NotFoundError ''User'' ''99999999-9999-4999-8999-999999999999'') \<and>
   fst (getUser testHost ''no-such-id'' Admin (row_id annRow) testDb) =
     Inl (DatabaseError ''Failed to fetch user from database'' (Some DriverError))"
proof -
  have re: "reachable testDb" by (rule testDb_reachable)
  have ua: "uuidInput testDb (row_id annRow) = Some (row_id annRow)"
    and ub: "uuidInput testDb (row_id bobRow) = Some (row_id bobRow)"
    and uu: "uuidInput testDb ''550E8400-E29B-41D4-A716-446655440000'' = Some (row_id annRow)"
    and ux: "uuidInput testDb ''99999999-9999-4999-8999-999999999999'' =
               Some ''99999999-9999-4999-8999-999999999999''"
    and un: "uuidInput testDb ''no-such-id'' = None"
    using whereId_ann whereId_bob whereId_upper_case whereId_absent whereId_not_a_uuid re
    by (simp_all add: whereId_def)
  from getUser_access_and_view [of User "row_id bobRow" "row_id annRow" testHost testDb]
  have 1: "getUser testHost (row_id annRow) User (row_id bobRow) testDb =
     (Inl (ForbiddenError ''Users can only view their own profile''), testDb)"
    using ids_differ by simp
  from getUser_access_and_view [of User "row_id annRow" "row_id annRow" testHost testDb]
  have 2: "fst (getUser testHost (row_id annRow) User (row_id annRow) testDb) = Inr (Base annBase)"
    using find_ann re ua by (simp add: toUserByRole_def annRow_base)
  from getUser_access_and_view [of Admin "row_id annRow" "row_id bobRow" testHost testDb]
  have 3: "fst (getUser testHost (row_id bobRow) Admin (row_id annRow) testDb) = Inr (Full bobFull)"
    using find_bob re ub by (simp add: toUserByRole_def bobRow_full)
  from getUser_access_and_view
         [of Admin "row_id bobRow" "''550E8400-E29B-41D4-A716-446655440000''" testHost testDb]
  have 4: "fst (getUser testHost ''550E8400-E29B-41D4-A716-446655440000'' Admin (row_id bobRow)
                  testDb) = Inr (Full annFull)"
    using find_ann re uu by (simp add: toUserByRole_def annRow_full)
  from getUser_access_and_view
         [of Admin "row_id annRow" "''99999999-9999-4999-8999-999999999999''" testHost testDb]
  have 5: "fst (getUser testHost ''99999999-9999-4999-8999-999999999999'' Admin (row_id annRow)
                  testDb) = Inl (NotFoundError ''User'' ''99999999-9999-4999-8999-999999999999'')"
    using find_absent re ux by simp
  from getUser_access_and_view [of Admin "row_id annRow" "''no-such-id''" testHost testDb]
  have 6: "fst (getUser testHost ''no-such-id'' Admin (row_id annRow) testDb) =
     Inl (DatabaseError ''Failed to fetch user from database'' (Some DriverError))"
    using un by simp
  from 1 2 3 4 5 6 show ?thesis by simp
qed

section \<open>Updating sensitive data\<close>

text \<open>
  Claim C6. For every target id, patch and resolved context, \<^verbatim>\<open>updateSensitiveData\<close> fails
  with \<^verbatim>\<open>ForbiddenError\<close> ``Admin access required'' whenever the caller's role is not admin,
  whatever the target id and also when the target is the caller, and it leaves storage as
  it was: a statement reaches the database, or the table changes, only when the role is
  admin.
\<close>

theorem updateSensitiveData_requires_admin:
  "(r \<noteq> Admin \<longrightarrow>
      updateSensitiveData H uid data r ruid db =
        (Inl (ForbiddenError ''Admin access required''), db)) \<and>
   (r \<noteq> Admin \<longrightarrow>
      updateSensitiveData H ruid data r ruid db =
        (Inl (ForbiddenError ''Admin access required''), db)) \<and>
   (journal (snd (updateSensitiveData H uid data r ruid db)) \<noteq> journal db \<longrightarrow> r = Admin) \<and>
   (table (snd (updateSensitiveData H uid data r ruid db)) \<noteq> table db \<longrightarrow> r = Admin)"
  using updateSensitiveData_not_admin [of r H uid data ruid db]
    updateSensitiveData_not_admin [of r H ruid data ruid db]
  by (cases "r = Admin") auto

theorem updateSensitiveData_requires_admin_witness:
  "User \<noteq> Admin \<and>
   updateSensitiveData testHost (row_id bobRow) ssnPatch User (row_id bobRow) testDb =
     (Inl (ForbiddenError ''Admin access required''), testDb) \<and>
   updateSensitiveData testHost (row_id annRow) ssnPatch User (row_id bobRow) testDb =
     (Inl (ForbiddenError ''Admin access required''), testDb) \<and>
   journal (snd (updateSensitiveData testHost (row_id bobRow) ssnPatch Admin (row_id annRow)
                   testDb)) \<noteq> journal testDb"
proof -
  have j: "journal (snd (updateSensitiveData testHost (row_id bobRow) ssnPatch Admin
                           (row_id annRow) testDb)) \<noteq> journal testDb"
    by (simp add: ssnPatch_by_admin) (simp add: testDb_def)
  from updateSensitiveData_requires_admin
         [of User testHost "row_id annRow" ssnPatch "row_id bobRow" testDb]
       updateSensitiveData_requires_admin
         [of Admin testHost "row_id bobRow" ssnPatch "row_id annRow" testDb] j
  show ?thesis by simp
qed

section \<open>Full views and sensitive data are for admins\<close>

text \<open>
  Claim C1. Only a caller whose resolved role is admin receives a full view or changes
  sensitive data: \<^verbatim>\<open>getUser\<close> and \<^verbatim>\<open>getAllUsers\<close> return a full view only when the role of
  the caller's context is admin, \<^verbatim>\<open>updateSensitiveData\<close> succeeds, or changes a stored
  salary or national identifier, only when that role is admin, and no other operation of
  the service changes the stored salaries and national identifiers: \<^verbatim>\<open>updateProfile\<close>
  keeps them, the two reads keep the whole table.
\<close>

theorem full_view_and_sensitive_update_only_for_admin:
  "(\<forall>v db'. getUser H uid r ruid db = (Inr v, db') \<longrightarrow> isFull v \<longrightarrow> r = Admin) \<and>
   (\<forall>vs db'. getAllUsers H r ruid db = (Inr vs, db') \<longrightarrow> (\<forall>v\<in>set vs. isFull v \<longrightarrow> r = Admin)) \<and>
   (\<forall>b db'. updateSensitiveData H uid sdata r ruid db = (Inr b, db') \<longrightarrow> r = Admin) \<and>
   ((map row_salary (table (snd (updateSensitiveData H uid sdata r ruid db))) \<noteq>
       map row_salary (table db) \<or>
     map row_ssn (table (snd (updateSensitiveData H uid sdata r ruid db))) \<noteq>
       map row_ssn (table db)) \<longrightarrow> r = Admin) \<and>
   map row_salary (table (snd (updateProfile uid pdata r ruid db))) = map row_salary (table db) \<and>
   map row_ssn (table (snd (updateProfile uid pdata r ruid db))) = map row_ssn (table db) \<and>
   table (snd (getUser H uid r ruid db)) = table db \<and>
   table (snd (getAllUsers H r ruid db)) = table db"
proof (intro conjI)
  show "\<forall>v db'. getUser H uid r ruid db = (Inr v, db') \<longrightarrow> isFull v \<longrightarrow> r = Admin"
    using getUser_Inr toUserByRole_kind by blast
  show "\<forall>vs db'. getAllUsers H r ruid db = (Inr vs, db') \<longrightarrow> (\<forall>v\<in>set vs. isFull v \<longrightarrow> r = Admin)"
    using findAll_Inr toUsersByRole_kind unfolding getAllUsers_def by blast
  show "\<forall>b db'. updateSensitiveData H uid sdata r ruid db = (Inr b, db') \<longrightarrow> r = Admin"
    using updateSensitiveData_not_admin [of r H uid sdata ruid db] by (cases "r = Admin") auto
  show "(map row_salary (table (snd (updateSensitiveData H uid sdata r ruid db))) \<noteq>
       map row_salary (table db) \<or>
     map row_ssn (table (snd (updateSensitiveData H uid sdata r ruid db))) \<noteq>
       map row_ssn (table db)) \<longrightarrow> r = Admin"
    using updateSensitiveData_not_admin [of r H uid sdata ruid db] by (cases "r = Admin") auto
  show "map row_salary (table (snd (updateProfile uid pdata r ruid db))) = map row_salary (table db)"
    and "map row_ssn (table (snd (updateProfile uid pdata r ruid db))) = map row_ssn (table db)"
    using updateProfile_sensitive_kept by blast+
  show "table (snd (getUser H uid r ruid db)) = table db"
    by (rule getUser_table)
  show "table (snd (getAllUsers H r ruid db)) = table db"
    by (simp add: getAllUsers_def findAll_table)
qed

theorem full_view_and_sensitive_update_only_for_admin_witness:
  "(\<exists>db'. getUser testHost (row_id bobRow) Admin (row_id annRow) testDb =
            (Inr (Full bobFull), db')) \<and>
   isFull (Full bobFull) \<and>
   (\<exists>db'. getUser testHost (row_id bobRow) User (row_id bobRow) testDb =
            (Inr (Base bobBase), db')) \<and>
   \<not> isFull (Base bobBase) \<and>
   (\<exists>db'. updateSensitiveData testHost (row_id bobRow) ssnPatch Admin (row_id annRow) testDb =
            (Inr True, db')) \<and>
   map row_ssn (table (snd (updateSensitiveData testHost (row_id bobRow) ssnPatch Admin
                              (row_id annRow) testDb))) \<noteq> map row_ssn (table testDb)"
proof -
  note inst = full_view_and_sensitive_update_only_for_admin
               [of testHost "row_id bobRow" Admin "row_id annRow" testDb ssnPatch]
  have a: "fst (getUser testHost (row_id bobRow) Admin (row_id annRow) testDb) = Inr (Full bobFull)"
    using getUser_allowed [of Admin "row_id annRow" "row_id bobRow" testDb "row_id bobRow" testHost]
      find_bob whereId_bob by (simp add: toUserByRole_def bobRow_full)
  have b: "fst (getUser testHost (row_id bobRow) User (row_id bobRow) testDb) = Inr (Base bobBase)"
    using getUser_allowed [of User "row_id bobRow" "row_id bobRow" testDb "row_id bobRow" testHost]
      find_bob whereId_bob by (simp add: toUserByRole_def bobRow_base)
  have c: "map row_ssn (table (snd (updateSensitiveData testHost (row_id bobRow) ssnPatch Admin
                              (row_id annRow) testDb))) \<noteq> map row_ssn (table testDb)"
    by (simp add: ssnPatch_by_admin) (simp add: testDb_def bobRow_def)
  from a obtain d1 where a': "getUser testHost (row_id bobRow) Admin (row_id annRow) testDb =
            (Inr (Full bobFull), d1)"
    by (cases "getUser testHost (row_id bobRow) Admin (row_id annRow) testDb") auto
  from b obtain d2 where b': "getUser testHost (row_id bobRow) User (row_id bobRow) testDb =
            (Inr (Base bobBase), d2)"
    by (cases "getUser testHost (row_id bobRow) User (row_id bobRow) testDb") auto
  from inst a' have "Admin = Admin" by simp
  then show ?thesis using a' b' c ssnPatch_by_admin by auto
qed

section \<open>Updating a profile\<close>

text \<open>
  Claim C7, as amended. For every \<^verbatim>\<open>updateProfile\<close> call that passes the ownership check
  (the caller is admin, or is the target), the patch reaches storage as it was given: when
  its name or its email is a non-empty string, exactly one UPDATE is sent, and it sets the
  name and the email to the patch's own non-empty values, with no email pattern and no
  name length checked on the way (\<^verbatim>\<open>UpdateUserProfile\<close> declares both as optional plain
  strings). A patch whose name and email are each absent or empty returns false without
  any storage call. A user updating someone else fails with \<^verbatim>\<open>ForbiddenError\<close>, also
  without a storage call.
\<close>

theorem updateProfile_patch_reaches_storage_as_given:
  "((r = Admin \<or> ruid = uid) \<and>
      truthy (upd_name data) = None \<and> truthy (upd_email data) = None \<longrightarrow>
      updateProfile uid data r ruid db = (Inr False, db)) \<and>
   ((r = Admin \<or> ruid = uid) \<and>
      \<not> (truthy (upd_name data) = None \<and> truthy (upd_email data) = None) \<longrightarrow>
      journal (snd (updateProfile uid data r ruid db)) =
        journal db @ [UpdateById uid
                        \<lparr>set_name = truthy (upd_name data), set_email = truthy (upd_email data),
                         set_salary = None, set_ssn = None,
                         set_updatedAt = Some (clock db)\<rparr>]) \<and>
   (r = User \<and> ruid \<noteq> uid \<longrightarrow>
      updateProfile uid data r ruid db = (Inl (ForbiddenError ''Cannot update other users''), db))"
proof (intro conjI impI)
  assume a: "(r = Admin \<or> ruid = uid) \<and>
      truthy (upd_name data) = None \<and> truthy (upd_email data) = None"
  then have "\<not> (r = User \<and> ruid \<noteq> uid)" by auto
  with a show "updateProfile uid data r ruid db = (Inr False, db)"
    by (simp add: updateProfile_def update_empty)
next
  assume a: "(r = Admin \<or> ruid = uid) \<and>
      \<not> (truthy (upd_name data) = None \<and> truthy (upd_email data) = None)"
  then have "\<not> (r = User \<and> ruid \<noteq> uid)" by auto
  with a show "journal (snd (updateProfile uid data r ruid db)) =
        journal db @ [UpdateById uid
                        \<lparr>set_name = truthy (upd_name data), set_email = truthy (upd_email data),
                         set_salary = None, set_ssn = None,
                         set_updatedAt = Some (clock db)\<rparr>]"
    using update_journal [of data uid db] by (simp add: updateProfile_def)
next
  assume "r = User \<and> ruid \<noteq> uid"
  then show "updateProfile uid data r ruid db =
      (Inl (ForbiddenError ''Cannot update other users''), db)"
    by (simp add: updateProfile_def)
qed

theorem updateProfile_patch_reaches_storage_as_given_witness:
  "updateProfile (row_id bobRow) emptyPatch User (row_id bobRow) testDb = (Inr False, testDb) \<and>
   journal (snd (updateProfile (row_id bobRow) badEmailPatch User (row_id bobRow) testDb)) =
     [UpdateById (row_id bobRow)
        \<lparr>set_name = None, set_email = Some ''not-an-email'', set_salary = None,
         set_ssn = None, set_updatedAt = Some 5000\<rparr>] \<and>
   updateProfile (row_id annRow) badEmailPatch User (row_id bobRow) testDb =
     (Inl (ForbiddenError ''Cannot update other users''), testDb)"
proof -
  from updateProfile_patch_reaches_storage_as_given
         [of User "row_id bobRow" "row_id bobRow" emptyPatch testDb] emptyPatch_truthy
  have 1: "updateProfile (row_id bobRow) emptyPatch User (row_id bobRow) testDb =
             (Inr False, testDb)"
    by simp
  from updateProfile_patch_reaches_storage_as_given
         [of User "row_id bobRow" "row_id bobRow" badEmailPatch testDb] badEmailPatch_truthy
  have 2: "journal (snd (updateProfile (row_id bobRow) badEmailPatch User (row_id bobRow)
                           testDb)) =
     [UpdateById (row_id bobRow)
        \<lparr>set_name = None, set_email = Some ''not-an-email'', set_salary = None,
         set_ssn = None, set_updatedAt = Some 5000\<rparr>]"
    by (simp add: testDb_def)
  from updateProfile_patch_reaches_storage_as_given
         [of User "row_id bobRow" "row_id annRow" badEmailPatch testDb] ids_differ
  have 3: "updateProfile (row_id annRow) badEmailPatch User (row_id bobRow) testDb =
     (Inl (ForbiddenError ''Cannot update other users''), testDb)"
    by simp
  from 1 2 3 show ?thesis by simp
qed

text \<open>
  The claim as first stated has the patch validated against the field rules before any
  storage call. It fails for an email that does not match the email pattern: the UPDATE is
  sent with it, and the table then holds it.
\<close>

theorem updateProfile_stores_unvalidated_email:
  "\<not> emailPattern ''not-an-email'' \<and>
   upd_email badEmailPatch = Some ''not-an-email'' \<and>
   journal (snd (updateProfile (row_id bobRow) badEmailPatch User (row_id bobRow) testDb)) =
     [UpdateById (row_id bobRow)
        \<lparr>set_name = None, set_email = Some ''not-an-email'', set_salary = None,
         set_ssn = None, set_updatedAt = Some 5000\<rparr>] \<and>
   map row_email (table (snd (updateProfile (row_id bobRow) badEmailPatch User (row_id bobRow)
                                testDb))) = [''a@b.com'', ''not-an-email'']"
proof -
  have "snd (updateProfile (row_id bobRow) badEmailPatch User (row_id bobRow) testDb) =
          testDb\<lparr>table := map (\<lambda>r. if row_id r = row_id bobRow
                                      then applyUpdates
                                             \<lparr>set_name = None,
                                              set_email = Some ''not-an-email'',
                                              set_salary = None, set_ssn = None,
                                              set_updatedAt = Some (clock testDb)\<rparr> r
                                      else r) (table testDb),
                 journal := journal testDb @
                            [UpdateById (row_id bobRow)
                               \<lparr>set_name = None, set_email = Some ''not-an-email'',
                                set_salary = None, set_ssn = None,
                                set_updatedAt = Some (clock testDb)\<rparr>]\<rparr>"
    by (simp add: updateProfile_def update_def profileUpdates_def noUpdates_def truthy_def
          keyCount_def dbUpdate_def whereId_bob badEmailPatch_def Let_def)
  then show ?thesis
    by (simp add: badEmail_not_email badEmailPatch_def applyUpdates_def testDb_def annRow_def
          bobRow_def)
qed

section \<open>Resolving the authorization context from a token\<close>

text \<open>
  Claim C2. For every bearer token, \<^verbatim>\<open>verifyJwt\<close> follows this algorithm. An empty token
  fails with \<^verbatim>\<open>AuthenticationError\<close> and storage is not touched. A token whose signature or
  expiry does not verify fails with \<^verbatim>\<open>AuthenticationError\<close>, again without touching
  storage. Otherwise the email of the verified payload is looked up in storage: when no row
  has it, the result is \<^verbatim>\<open>AuthenticationError\<close> ``User not found''; when the row decodes and
  is inactive, \<^verbatim>\<open>AuthenticationError\<close> ``User account is inactive''; when it decodes and is
  active, the context holds the id and the role of that row. Whenever a context is
  returned, its user id and its role are the ones stored in the row found by the email,
  whatever user id and role the token's payload claims: a change of the stored role takes
  effect while the token is still valid.
\<close>

theorem verifyJwt_resolves_from_storage:
  "verifyJwt H env [] db = (Inl (AuthenticationError ''Missing authorization token''), db) \<and>
   (token \<noteq> [] \<and> jwt_verify H token (jwtSecret env) = None \<longrightarrow>
      verifyJwt H env token db = (Inl (AuthenticationError ''Invalid or expired token''), db)) \<and>
   (\<forall>p. token \<noteq> [] \<and> jwt_verify H token (jwtSecret env) = Some p \<and> reachable db \<and>
      find (\<lambda>row. row_email row = jwt_email p) (table db) = None \<longrightarrow>
      fst (verifyJwt H env token db) = Inl (AuthenticationError ''User not found'')) \<and>
   (\<forall>p row u. token \<noteq> [] \<and> jwt_verify H token (jwtSecret env) = Some p \<and> reachable db \<and>
      find (\<lambda>row. row_email row = jwt_email p) (table db) = Some row \<and>
      toUserWithPassword H row = Inr u \<and> \<not> row_isActive row \<longrightarrow>
      fst (verifyJwt H env token db) = Inl (AuthenticationError ''User account is inactive'')) \<and>
   (\<forall>p row u. token \<noteq> [] \<and> jwt_verify H token (jwtSecret env) = Some p \<and> reachable db \<and>
      find (\<lambda>row. row_email row = jwt_email p) (table db) = Some row \<and>
      toUserWithPassword H row = Inr u \<and> row_isActive row \<longrightarrow>
      (\<exists>rl. decodeRoleName (row_role row) = Some rl \<and>
            fst (verifyJwt H env token db) = Inr \<lparr>userId = row_id row, ctx_role = rl\<rparr>)) \<and>
   (\<forall>ctx db'. verifyJwt H env token db = (Inr ctx, db') \<longrightarrow>
      (\<exists>p row. jwt_verify H token (jwtSecret env) = Some p \<and>
         find (\<lambda>row. row_email row = jwt_email p) (table db) = Some row \<and>
         row_isActive row \<and> userId ctx = row_id row \<and>
         roleString (ctx_role ctx) = row_role row))"
proof (intro conjI)
  show "verifyJwt H env [] db = (Inl (AuthenticationError ''Missing authorization token''), db)"
    by (simp add: verifyJwt_def)
  show "token \<noteq> [] \<and> jwt_verify H token (jwtSecret env) = None \<longrightarrow>
      verifyJwt H env token db = (Inl (AuthenticationError ''Invalid or expired token''), db)"
    by (simp add: verifyJwt_def)
  show "\<forall>p. token \<noteq> [] \<and> jwt_verify H token (jwtSecret env) = Some p \<and> reachable db \<and>
      find (\<lambda>row. row_email row = jwt_email p) (table db) = None \<longrightarrow>
      fst (verifyJwt H env token db) = Inl (AuthenticationError ''User not found'')"
    by (simp add: verifyJwt_found)
  show "\<forall>p row u. token \<noteq> [] \<and> jwt_verify H token (jwtSecret env) = Some p \<and> reachable db \<and>
      find (\<lambda>row. row_email row = jwt_email p) (table db) = Some row \<and>
      toUserWithPassword H row = Inr u \<and> \<not> row_isActive row \<longrightarrow>
      fst (verifyJwt H env token db) = Inl (AuthenticationError ''User account is inactive'')"
    by (simp add: verifyJwt_found)
  show "\<forall>p row u. token \<noteq> [] \<and> jwt_verify H token (jwtSecret env) = Some p \<and> reachable db \<and>
      find (\<lambda>row. row_email row = jwt_email p) (table db) = Some row \<and>
      toUserWithPassword H row = Inr u \<and> row_isActive row \<longrightarrow>
      (\<exists>rl. decodeRoleName (row_role row) = Some rl \<and>
            fst (verifyJwt H env token db) = Inr \<lparr>userId = row_id row, ctx_role = rl\<rparr>)"
    using toUserWithPassword_fields by (auto simp: verifyJwt_found)
  show "\<forall>ctx db'. verifyJwt H env token db = (Inr ctx, db') \<longrightarrow>
      (\<exists>p row. jwt_verify H token (jwtSecret env) = Some p \<and>
         find (\<lambda>row. row_email row = jwt_email p) (table db) = Some row \<and>
         row_isActive row \<and> userId ctx = row_id row \<and>
         roleString (ctx_role ctx) = row_role row)"
    using verifyJwt_Inr by blast
qed

theorem verifyJwt_resolves_from_storage_witness:
  "jwt_verify testHost ''tok:a@b.com'' (jwtSecret testEnv) =
     Some \<lparr>jwt_userId = [], jwt_email = ''a@b.com'', jwt_role = ''user''\<rparr> \<and>
   fst (verifyJwt testHost testEnv ''tok:a@b.com'' testDb) =
     Inr \<lparr>userId = row_id annRow, ctx_role = Admin\<rparr> \<and>
   fst (verifyJwt testHost testEnv ''tok:a@b.com'' demotedDb) =
     Inr \<lparr>userId = row_id annRow, ctx_role = User\<rparr> \<and>
   fst (verifyJwt testHost testEnv ''tok:bob@c.org'' inactiveDb) =
     Inl (AuthenticationError ''User account is inactive'') \<and>
   fst (verifyJwt testHost testEnv ''tok:nobody@x.org'' testDb) =
     Inl (AuthenticationError ''User not found'') \<and>
   verifyJwt testHost testEnv ''garbage'' testDb =
     (Inl (AuthenticationError ''Invalid or expired token''), testDb)"
proof -
  have v: "jwt_verify testHost ''tok:a@b.com'' (jwtSecret testEnv) =
     Some \<lparr>jwt_userId = [], jwt_email = ''a@b.com'', jwt_role = ''user''\<rparr>"
    using testHost_verify [of "''a@b.com''"] by simp
  have vb: "jwt_verify testHost ''tok:bob@c.org'' (jwtSecret testEnv) =
     Some \<lparr>jwt_userId = [], jwt_email = ''bob@c.org'', jwt_role = ''user''\<rparr>"
    using testHost_verify [of "''bob@c.org''"] by simp
  have vn: "jwt_verify testHost ''tok:nobody@x.org'' (jwtSecret testEnv) =
     Some \<lparr>jwt_userId = [], jwt_email = ''nobody@x.org'', jwt_role = ''user''\<rparr>"
    using testHost_verify [of "''nobody@x.org''"] by simp
  obtain u1 where u1: "toUserWithPassword testHost annRow = Inr u1"
    using annRow_cred by blast
  obtain u2 where u2: "toUserWithPassword testHost (annRow\<lparr>row_role := ''user''\<rparr>) = Inr u2"
    using demotedAnn_cred by blast
  obtain u3 where u3: "toUserWithPassword testHost (bobRow\<lparr>row_isActive := False\<rparr>) = Inr u3"
    using inactiveBob_cred by blast
  have "\<exists>rl. decodeRoleName (row_role annRow) = Some rl \<and>
          fst (verifyJwt testHost testEnv ''tok:a@b.com'' testDb) =
            Inr \<lparr>userId = row_id annRow, ctx_role = rl\<rparr>"
    using verifyJwt_resolves_from_storage
            [where H = testHost and env = testEnv and db = testDb and token = "''tok:a@b.com''"]
          v u1 find_email_ann testDb_reachable
    by (simp add: annRow_def)
  then have 1: "fst (verifyJwt testHost testEnv ''tok:a@b.com'' testDb) =
     Inr \<lparr>userId = row_id annRow, ctx_role = Admin\<rparr>"
    by (auto simp: decodeRoleName_def annRow_def)
  have "\<exists>rl. decodeRoleName (row_role (annRow\<lparr>row_role := ''user''\<rparr>)) = Some rl \<and>
          fst (verifyJwt testHost testEnv ''tok:a@b.com'' demotedDb) =
            Inr \<lparr>userId = row_id (annRow\<lparr>row_role := ''user''\<rparr>), ctx_role = rl\<rparr>"
    using verifyJwt_resolves_from_storage
            [where H = testHost and env = testEnv and db = demotedDb and token = "''tok:a@b.com''"]
          v u2 find_email_demoted dbs_reachable
    by (simp add: annRow_def)
  then have 2: "fst (verifyJwt testHost testEnv ''tok:a@b.com'' demotedDb) =
     Inr \<lparr>userId = row_id annRow, ctx_role = User\<rparr>"
    by (auto simp: decodeRoleName_def)
  have 3: "fst (verifyJwt testHost testEnv ''tok:bob@c.org'' inactiveDb) =
     Inl (AuthenticationError ''User account is inactive'')"
    using verifyJwt_resolves_from_storage
            [where H = testHost and env = testEnv and db = inactiveDb and token = "''tok:bob@c.org''"]
          vb u3 find_email_inactive dbs_reachable
    by simp
  have 4: "fst (verifyJwt testHost testEnv ''tok:nobody@x.org'' testDb) =
     Inl (AuthenticationError ''User not found'')"
    using verifyJwt_resolves_from_storage
            [where H = testHost and env = testEnv and db = testDb and token = "''tok:nobody@x.org''"]
          vn find_email_nobody testDb_reachable
    by simp
  have 5: "verifyJwt testHost testEnv ''garbage'' testDb =
     (Inl (AuthenticationError ''Invalid or expired token''), testDb)"
    using verifyJwt_resolves_from_storage
            [where H = testHost and env = testEnv and db = testDb and token = "''garbage''"]
          testHost_verify_garbage
    by simp
  from v 1 2 3 4 5 show ?thesis by simp
qed

section \<open>Logging in\<close>

text \<open>
  Claim C4. For every email and password, \<^verbatim>\<open>login\<close> fails with an
  \<^verbatim>\<open>AuthenticationError\<close> carrying the generic message ``Invalid email or password'' both
  when no user has that email and when the user is active and the password does not match
  the stored hash; it fails with the different message ``User account is inactive'' when the
  user exists and is inactive; and it returns a token, signed over the stored id, email and
  role, only when the user exists, is active and the password matches.
\<close>

theorem login_outcomes:
  "(reachable db \<and> find (\<lambda>row. row_email row = email) (table db) = None \<longrightarrow>
      fst (login H env email pw db) = Inl (AuthenticationError ''Invalid email or password'')) \<and>
   (\<forall>row u. reachable db \<and> find (\<lambda>row. row_email row = email) (table db) = Some row \<and>
      toUserWithPassword H row = Inr u \<and> \<not> row_isActive row \<longrightarrow>
      fst (login H env email pw db) = Inl (AuthenticationError ''User account is inactive'')) \<and>
   (\<forall>row u. reachable db \<and> find (\<lambda>row. row_email row = email) (table db) = Some row \<and>
      toUserWithPassword H row = Inr u \<and> row_isActive row \<and>
      \<not> bcrypt_compare H pw (row_password row) \<longrightarrow>
      fst (login H env email pw db) = Inl (AuthenticationError ''Invalid email or password'')) \<and>
   (\<forall>row u. reachable db \<and> find (\<lambda>row. row_email row = email) (table db) = Some row \<and>
      toUserWithPassword H row = Inr u \<and> row_isActive row \<and>
      bcrypt_compare H pw (row_password row) \<longrightarrow>
      fst (login H env email pw db) =
        generateToken H env (row_id row) (row_email row) (row_role row)) \<and>
   (\<forall>tok db'. login H env email pw db = (Inr tok, db') \<longrightarrow>
      (\<exists>row. find (\<lambda>row. row_email row = email) (table db) = Some row \<and>
         row_isActive row \<and> bcrypt_compare H pw (row_password row) \<and>
         jwt_sign H \<lparr>jwt_userId = row_id row, jwt_email = row_email row,
                      jwt_role = row_role row\<rparr> (jwtSecret env) (expiresIn env) = Some tok)) \<and>
   ''User account is inactive'' \<noteq> ''Invalid email or password''"
proof (intro conjI)
  show "reachable db \<and> find (\<lambda>row. row_email row = email) (table db) = None \<longrightarrow>
      fst (login H env email pw db) = Inl (AuthenticationError ''Invalid email or password'')"
    by (simp add: login_found)
  show "\<forall>row u. reachable db \<and> find (\<lambda>row. row_email row = email) (table db) = Some row \<and>
      toUserWithPassword H row = Inr u \<and> \<not> row_isActive row \<longrightarrow>
      fst (login H env email pw db) = Inl (AuthenticationError ''User account is inactive'')"
    by (simp add: login_found)
  show "\<forall>row u. reachable db \<and> find (\<lambda>row. row_email row = email) (table db) = Some row \<and>
      toUserWithPassword H row = Inr u \<and> row_isActive row \<and>
      \<not> bcrypt_compare H pw (row_password row) \<longrightarrow>
      fst (login H env email pw db) = Inl (AuthenticationError ''Invalid email or password'')"
    by (simp add: login_found)
  show "\<forall>row u. reachable db \<and> find (\<lambda>row. row_email row = email) (table db) = Some row \<and>
      toUserWithPassword H row = Inr u \<and> row_isActive row \<and>
      bcrypt_compare H pw (row_password row) \<longrightarrow>
      fst (login H env email pw db) =
        generateToken H env (row_id row) (row_email row) (row_role row)"
    by (simp add: login_found)
  show "\<forall>tok db'. login H env email pw db = (Inr tok, db') \<longrightarrow>
      (\<exists>row. find (\<lambda>row. row_email row = email) (table db) = Some row \<and>
         row_isActive row \<and> bcrypt_compare H pw (row_password row) \<and>
         jwt_sign H \<lparr>jwt_userId = row_id row, jwt_email = row_email row,
                      jwt_role = row_role row\<rparr> (jwtSecret env) (expiresIn env) = Some tok)"
    using login_Inr by blast
  show "''User account is inactive'' \<noteq> ''Invalid email or password''"
    by simp
qed

theorem login_outcomes_witness:
  "fst (login testHost testEnv ''nobody@x.org'' ''secret-pw'' testDb) =
     Inl (AuthenticationError ''Invalid email or password'') \<and>
   fst (login testHost testEnv ''a@b.com'' ''wrong-pw'' testDb) =
     Inl (AuthenticationError ''Invalid email or password'') \<and>
   fst (login testHost testEnv ''bob@c.org'' ''hunter22'' inactiveDb) =
     Inl (AuthenticationError ''User account is inactive'') \<and>
   fst (login testHost testEnv ''a@b.com'' ''secret-pw'' testDb) = Inr ''tok:a@b.com''"
proof -
  obtain u1 where u1: "toUserWithPassword testHost annRow = Inr u1"
    using annRow_cred by blast
  obtain u3 where u3: "toUserWithPassword testHost (bobRow\<lparr>row_isActive := False\<rparr>) = Inr u3"
    using inactiveBob_cred by blast
  have bad: "\<not> bcrypt_compare testHost ''wrong-pw'' (row_password annRow)"
    and good: "bcrypt_compare testHost ''secret-pw'' (row_password annRow)"
    by (simp_all add: testHost_def annRow_def)
  have tok: "generateToken testHost testEnv (row_id annRow) (row_email annRow) (row_role annRow) =
               Inr ''tok:a@b.com''"
    by (simp add: generateToken_def testHost_def annRow_def)
  have 1: "fst (login testHost testEnv ''nobody@x.org'' ''secret-pw'' testDb) =
     Inl (AuthenticationError ''Invalid email or password'')"
    using login_outcomes [where H = testHost and env = testEnv and db = testDb
                            and email = "''nobody@x.org''" and pw = "''secret-pw''"]
          find_email_nobody testDb_reachable
    by simp
  have 2: "fst (login testHost testEnv ''a@b.com'' ''wrong-pw'' testDb) =
     Inl (AuthenticationError ''Invalid email or password'')"
    using login_outcomes [where H = testHost and env = testEnv and db = testDb
                            and email = "''a@b.com''" and pw = "''wrong-pw''"]
          find_email_ann testDb_reachable u1 bad
    by (simp add: annRow_def)
  have 3: "fst (login testHost testEnv ''bob@c.org'' ''hunter22'' inactiveDb) =
     Inl (AuthenticationError ''User account is inactive'')"
    using login_outcomes [where H = testHost and env = testEnv and db = inactiveDb
                            and email = "''bob@c.org''" and pw = "''hunter22''"]
          find_email_inactive dbs_reachable u3
    by simp
  have 4: "fst (login testHost testEnv ''a@b.com'' ''secret-pw'' testDb) = Inr ''tok:a@b.com''"
    using login_outcomes [where H = testHost and env = testEnv and db = testDb
                            and email = "''a@b.com''" and pw = "''secret-pw''"]
          find_email_ann testDb_reachable u1 good tok
    by (simp add: annRow_def)
  from 1 2 3 4 show ?thesis by simp
qed

section \<open>The context the handlers run with\<close>

text \<open>
  Claim C3. For any two requests whose headers carry non-empty tokens, equal or not,
  \<^verbatim>\<open>withAuth\<close> runs the wrapped effect with the same context, user id
  \<^verbatim>\<open>550e8400-e29b-41d4-a716-446655440000\<close> and role admin: the context depends on neither
  the content nor the signature of the token, and providing it reads nothing from storage.
  A request with an empty token fails with ``No token''. Each of the five handlers therefore
  calls the service with role admin and that user id.
\<close>

theorem withAuth_provides_fixed_admin_context:
  "(bearerToken req1 \<noteq> [] \<and> bearerToken req2 \<noteq> [] \<longrightarrow>
      withAuth req1 effect db = effect hardcodedContext db \<and>
      withAuth req2 effect db = withAuth req1 effect db) \<and>
   (bearerToken req1 \<noteq> [] \<longrightarrow>
      withAuth req1 (\<lambda>authContext d. (Inr authContext, d)) db = (Inr hardcodedContext, db)) \<and>
   (bearerToken req1 = [] \<longrightarrow>
      withAuth req1 effect db = (Inl (Unauthorized ''No token''), db)) \<and>
   (bearerToken req1 \<noteq> [] \<longrightarrow>
      handle_getCurrentUser H req1 db =
        getUser H (userId hardcodedContext) Admin (userId hardcodedContext) db \<and>
      handle_getAllUsers H req1 db = getAllUsers H Admin (userId hardcodedContext) db \<and>
      handle_getUser H req1 path_id db = getUser H path_id Admin (userId hardcodedContext) db \<and>
      handle_updateUser req1 path_id profile db =
        updateProfile path_id profile Admin (userId hardcodedContext) db \<and>
      handle_updateSensitiveData H req1 path_id sensitive db =
        updateSensitiveData H path_id sensitive Admin (userId hardcodedContext) db) \<and>
   userId hardcodedContext = ''550e8400-e29b-41d4-a716-446655440000'' \<and>
   ctx_role hardcodedContext = Admin"
proof (intro conjI impI)
  assume a: "bearerToken req1 \<noteq> [] \<and> bearerToken req2 \<noteq> []"
  then show "withAuth req1 effect db = effect hardcodedContext db"
    by (simp add: withAuth_token)
  from a show "withAuth req2 effect db = withAuth req1 effect db"
    by (simp add: withAuth_token)
next
  assume "bearerToken req1 \<noteq> []"
  then show "withAuth req1 (\<lambda>authContext d. (Inr authContext, d)) db = (Inr hardcodedContext, db)"
    by (simp add: withAuth_token)
next
  assume "bearerToken req1 = []"
  then show "withAuth req1 effect db = (Inl (Unauthorized ''No token''), db)"
    by (rule withAuth_no_token)
next
  assume a: "bearerToken req1 \<noteq> []"
  have r: "ctx_role hardcodedContext = Admin" by (simp add: hardcodedContext_def)
  from a show "handle_getCurrentUser H req1 db =
        getUser H (userId hardcodedContext) Admin (userId hardcodedContext) db"
    by (simp add: handle_getCurrentUser_def withAuth_token r)
  from a show "handle_getAllUsers H req1 db = getAllUsers H Admin (userId hardcodedContext) db"
    by (simp add: handle_getAllUsers_def withAuth_token r)
  from a show "handle_getUser H req1 path_id db =
        getUser H path_id Admin (userId hardcodedContext) db"
    by (simp add: handle_getUser_def withAuth_token r)
  from a show "handle_updateUser req1 path_id profile db =
        updateProfile path_id profile Admin (userId hardcodedContext) db"
    by (simp add: handle_updateUser_def withAuth_token r)
  from a show "handle_updateSensitiveData H req1 path_id sensitive db =
        updateSensitiveData H path_id sensitive Admin (userId hardcodedContext) db"
    by (simp add: handle_updateSensitiveData_def withAuth_token r)
next
  show "userId hardcodedContext = ''550e8400-e29b-41d4-a716-446655440000''"
    and "ctx_role hardcodedContext = Admin"
    by (simp_all add: hardcodedContext_def)
qed

theorem withAuth_provides_fixed_admin_context_witness:
  "bearerToken aliceRequest \<noteq> [] \<and> bearerToken forgedRequest \<noteq> [] \<and>
   bearerToken aliceRequest \<noteq> bearerToken forgedRequest \<and>
   withAuth aliceRequest (\<lambda>authContext d. (Inr authContext, d)) testDb =
     (Inr hardcodedContext, testDb) \<and>
   withAuth forgedRequest (\<lambda>authContext d. (Inr authContext, d)) testDb =
     withAuth aliceRequest (\<lambda>authContext d. (Inr authContext, d)) testDb \<and>
   bearerToken noTokenRequest = [] \<and>
   withAuth noTokenRequest (\<lambda>authContext d. (Inr authContext, d)) testDb =
     (Inl (Unauthorized ''No token''), testDb) \<and>
   handle_updateSensitiveData testHost forgedRequest (row_id bobRow) ssnPatch testDb =
     updateSensitiveData testHost (row_id bobRow) ssnPatch Admin (row_id annRow) testDb"
proof -
  have t: "bearerToken aliceRequest \<noteq> []" "bearerToken forgedRequest \<noteq> []"
    "bearerToken aliceRequest \<noteq> bearerToken forgedRequest" "bearerToken noTokenRequest = []"
    by (simp_all add: request_tokens)
  have i: "userId hardcodedContext = row_id annRow"
    by (simp add: hardcodedContext_def annRow_def)
  from withAuth_provides_fixed_admin_context
         [where ?req1.0 = aliceRequest and ?req2.0 = forgedRequest and db = testDb
            and H = testHost and path_id = "row_id bobRow" and sensitive = ssnPatch
            and profile = emptyPatch and effect = "\<lambda>authContext d. (Inr authContext, d)"] t
  have 1: "withAuth aliceRequest (\<lambda>authContext d. (Inr authContext, d)) testDb =
             (Inr hardcodedContext, testDb)"
    and 2: "withAuth forgedRequest (\<lambda>authContext d. (Inr authContext, d)) testDb =
     withAuth aliceRequest (\<lambda>authContext d. (Inr authContext, d)) testDb"
    by simp_all
  from withAuth_provides_fixed_admin_context
         [where ?req1.0 = noTokenRequest and ?req2.0 = aliceRequest and db = testDb
            and H = testHost and path_id = "row_id bobRow" and sensitive = ssnPatch
            and profile = emptyPatch and effect = "\<lambda>authContext d. (Inr authContext, d)"] t
  have 3: "withAuth noTokenRequest (\<lambda>authContext d. (Inr authContext, d)) testDb =
     (Inl (Unauthorized ''No token''), testDb)"
    by simp
  from withAuth_provides_fixed_admin_context
         [where ?req1.0 = forgedRequest and ?req2.0 = aliceRequest and db = testDb
            and H = testHost and path_id = "row_id bobRow" and sensitive = ssnPatch
            and profile = emptyPatch and effect = "\<lambda>authContext d. (Inr authContext, d)"] t
  have 4: "handle_updateSensitiveData testHost forgedRequest (row_id bobRow) ssnPatch testDb =
     updateSensitiveData testHost (row_id bobRow) ssnPatch Admin (row_id annRow) testDb"
    by (simp add: i)
  from t 1 2 3 4 show ?thesis by simp
qed

end
